theory Spec2Isabelle
  imports Complex_Main "HOL-Library.Sublist"
begin

section \<open>Cash transfers between cash journals: the model of \<open>models/cash_transfer.py\<close>\<close>

subsection \<open>Data model\<close>

text \<open>
  Record identifiers are Python integers. A many-to-one field holds at most one record:
  it is an option, \<open>None\<close> being the empty recordset (falsy in Python). Two recordsets
  of one model are equal when they hold the same identifiers. Monetary amounts are
  modelled as real numbers; rounding and the special floating-point values are outside
  the model.
\<close>

record company =
  c_id :: int
  c_currency_id :: "int option"

record operating_unit =
  ou_id :: int
  ou_company_id :: int
  ou_name :: string
  ou_code :: string

text \<open>
  \<open>account.journal\<close>, with the fields the module reads. \<open>operating_unit_id\<close> is the
  field the source assumes on the journal; the three account fields hold the
  identifier of an account or nothing.
\<close>

record journal =
  j_id :: int
  j_name :: string
  j_type :: string
  j_company_id :: int
  j_operating_unit_id :: "int option"
  default_account_id :: "int option"
  payment_debit_account_id :: "int option"
  payment_credit_account_id :: "int option"

text \<open>One entry of \<open>line_ids\<close>: the dictionary of a move line.\<close>

record move_line =
  l_name :: string
  l_account_id :: int
  l_debit :: real
  l_credit :: real
  l_currency_id :: "int option"
  l_company_id :: "int option"

text \<open>
  \<open>account.move\<close> belongs to the ledger engine, outside the module. The model
  records what the module asks of it: \<open>create\<close> stores the values it is given in a
  draft move, \<open>action_post\<close> marks the move posted.
\<close>

record account_move =
  m_date :: string
  m_journal_id :: int
  m_ref :: string
  m_line_ids :: "move_line list"
  m_company_id :: "int option"
  m_state :: string

text \<open>The model \<open>cash.transfer\<close>.\<close>

record cash_transfer =
  t_id :: int
  date :: string
  company_id :: "company option"
  journal_id_from :: "journal option"
  journal_id_to :: "journal option"
  amount :: real
  currency_id :: "int option"
  state :: string

text \<open>
  The environment \<open>self.env\<close>: the tables of journals and operating units, each in the
  default order of its model (the order of a search that names none), the
  configuration parameters, the default operating unit of the acting user (\<open>None\<close>
  when the user has none, or when the attribute does not exist), and the moves of the
  ledger.
\<close>

record env =
  journals :: "journal list"
  operating_units :: "operating_unit list"
  config_parameter :: "string \<Rightarrow> string option"
  user_default_operating_unit_id :: "int option"
  account_moves :: "account_move list"

datatype error = UserError string | ValueError

subsection \<open>Searches\<close>

text \<open>\<open>Model.search(domain, limit=1)\<close>: the first match in the default order.\<close>

definition search_limit1 :: "('a \<Rightarrow> bool) \<Rightarrow> 'a list \<Rightarrow> 'a option" where
  "search_limit1 domain table = (case filter domain table of [] \<Rightarrow> None | r # _ \<Rightarrow> Some r)"

text \<open>\<open>Journal.search(domain, limit=1, order='id asc')\<close>: the matches sorted by identifier, the first one kept.\<close>

definition search_limit1_id_asc :: "(journal \<Rightarrow> bool) \<Rightarrow> journal list \<Rightarrow> journal option" where
  "search_limit1_id_asc domain table =
     (case sort_key j_id (filter domain table) of [] \<Rightarrow> None | r # _ \<Rightarrow> Some r)"

text \<open>\<open>Journal.browse(i).exists()\<close>: the journal with that identifier, if the table has one.\<close>

definition browse_exists :: "journal list \<Rightarrow> int \<Rightarrow> journal option" where
  "browse_exists table i = find (\<lambda>j. j_id j = i) table"

text \<open>\<open>company.id\<close>: the identifier, \<open>False\<close> (here \<open>None\<close>) for the empty recordset.\<close>

definition company_ident :: "company option \<Rightarrow> int option" where
  "company_ident c = map_option c_id c"

subsection \<open>Journal resolution\<close>

definition get_user_default_ou :: "env \<Rightarrow> int option" where
  "get_user_default_ou e = user_default_operating_unit_id e"

text \<open>The domain built by \<open>_find_cash_journal_by_ou\<close>: the unit is filtered on only when one is given.\<close>

definition cash_journal_domain :: "company option \<Rightarrow> int option \<Rightarrow> journal \<Rightarrow> bool" where
  "cash_journal_domain c ou j =
     (j_type j = ''cash'' \<and> Some (j_company_id j) = company_ident c \<and>
      (case ou of None \<Rightarrow> True | Some u \<Rightarrow> j_operating_unit_id j = Some u))"

definition find_cash_journal_by_ou :: "env \<Rightarrow> company option \<Rightarrow> int option \<Rightarrow> journal option" where
  "find_cash_journal_by_ou e c ou = search_limit1_id_asc (cash_journal_domain c ou) (journals e)"

subsection \<open>The configured central journal\<close>

text \<open>
  \<open>ICP.get_param(key, default)\<close> of the platform returns the stored value, or the
  default when nothing is stored or the stored value is the empty string.
\<close>

definition get_param :: "(string \<Rightarrow> string option) \<Rightarrow> string \<Rightarrow> string \<Rightarrow> string" where
  "get_param icp key dflt = (case icp key of None \<Rightarrow> dflt | Some v \<Rightarrow> if v = [] then dflt else v)"

text \<open>
  Python's \<open>int(s)\<close> on a string. A character of the model is a code point below
  256; strings with other code points are outside the model. White space is stripped
  at both ends: the ASCII white space of the parser (codes 9 to 13 and 32) and, of the
  code points from 128 on, the two that are white space (133 and 160), which the
  conversion turns into blanks first. One sign is allowed, then come the decimal digits
  \<open>0\<close> to \<open>9\<close>, where single underscores may stand between two digits. Anything else
  raises \<open>ValueError\<close>, and so does a string with more digits than the limit of the
  interpreter, 4300 by default (\<open>sys.int_info.default_max_str_digits\<close>; underscores,
  sign and white space do not count).
\<close>

definition is_digit :: "char \<Rightarrow> bool" where
  "is_digit c = (c \<in> set ''0123456789'')"

definition digit_value :: "char \<Rightarrow> int" where
  "digit_value c = int (length (takeWhile (\<lambda>d. d \<noteq> c) ''0123456789''))"

definition is_space :: "char \<Rightarrow> bool" where
  "is_space c = ((of_char c :: nat) \<in> {9, 10, 11, 12, 13, 32, 133, 160})"

definition int_max_str_digits :: nat where
  "int_max_str_digits = 4300"

definition strip :: "string \<Rightarrow> string" where
  "strip s = rev (dropWhile is_space (rev (dropWhile is_space s)))"

fun int_digits :: "int \<Rightarrow> string \<Rightarrow> int option" where
  "int_digits acc [] = Some acc"
| "int_digits acc (c # cs) =
     (if is_digit c then int_digits (10 * acc + digit_value c) cs
      else if c = CHR ''_'' then
        (case cs of
           [] \<Rightarrow> None
         | d # ds \<Rightarrow> if is_digit d then int_digits (10 * acc + digit_value d) ds else None)
      else None)"

definition py_int :: "string \<Rightarrow> error + int" where
  "py_int s =
     (let t = strip s;
          negative = (case t of [] \<Rightarrow> False | c # _ \<Rightarrow> c = CHR ''-'');
          body = (case t of [] \<Rightarrow> [] | c # cs \<Rightarrow> if c = CHR ''-'' \<or> c = CHR ''+'' then cs else t)
      in case body of
           [] \<Rightarrow> Inl ValueError
         | c # cs \<Rightarrow>
             if is_digit c then
               (case int_digits (digit_value c) cs of
                  None \<Rightarrow> Inl ValueError
                | Some n \<Rightarrow>
                    if int_max_str_digits < length (filter is_digit body) then Inl ValueError
                    else Inr (if negative then - n else n))
             else Inl ValueError)"

text \<open>
  A decimal integer string, in the words of the specification: an optional sign, then
  one ASCII digit or more.
\<close>

definition decimal_integer_string :: "string \<Rightarrow> bool" where
  "decimal_integer_string s =
     (case s of
        [] \<Rightarrow> False
      | c # cs \<Rightarrow>
          if c = CHR ''-'' \<or> c = CHR ''+'' then cs \<noteq> [] \<and> list_all is_digit cs
          else list_all is_digit (c # cs))"

text \<open>
  \<open>int(ICP.get_param('cash_transfer.central_journal_id', default='0') or 0)\<close>: a falsy
  (empty) string is replaced by the integer 0, which \<open>int\<close> returns as it is.
\<close>

definition central_id :: "env \<Rightarrow> error + int" where
  "central_id e =
     (let p = get_param (config_parameter e) ''cash_transfer.central_journal_id'' ''0''
      in if p = [] then Inr 0 else py_int p)"

text \<open>
  The operator \<open>ilike\<close> of a search domain: the value contains the pattern, letter case
  ignored (ASCII letters; the pattern here has no wildcard).
\<close>

definition lower :: "char \<Rightarrow> char" where
  "lower c = (let n = of_char c :: nat in if 65 \<le> n \<and> n \<le> 90 then char_of (n + 32) else c)"

definition ilike :: "string \<Rightarrow> string \<Rightarrow> bool" where
  "ilike v pat = sublist (map lower pat) (map lower v)"

text \<open>Lines 62 to 64: the configured journal, kept only if it exists, is of the company and of type cash.\<close>

definition configured_central :: "env \<Rightarrow> company option \<Rightarrow> int \<Rightarrow> journal option" where
  "configured_central e c i =
     (if i \<noteq> 0 then
        (case browse_exists (journals e) i of
           None \<Rightarrow> None
         | Some j \<Rightarrow>
             if Some (j_company_id j) = company_ident c \<and> j_type j = ''cash'' then Some j else None)
      else None)"

text \<open>Lines 67 to 74: the first operating unit named or coded Central, then a cash journal of that unit.\<close>

definition central_ou_domain :: "company option \<Rightarrow> operating_unit \<Rightarrow> bool" where
  "central_ou_domain c u =
     (Some (ou_company_id u) = company_ident c \<and>
      (ilike (ou_name u) ''Central'' \<or> ou_code u = ''CENTRAL''))"

definition fallback_central :: "env \<Rightarrow> company option \<Rightarrow> journal option" where
  "fallback_central e c =
     (case search_limit1 (central_ou_domain c) (operating_units e) of
        None \<Rightarrow> None
      | Some central_ou \<Rightarrow>
          search_limit1
            (\<lambda>j. j_type j = ''cash'' \<and> Some (j_company_id j) = company_ident c \<and>
                 j_operating_unit_id j = Some (ou_id central_ou))
            (journals e))"

definition get_central_cash_journal :: "env \<Rightarrow> company option \<Rightarrow> error + journal option" where
  "get_central_cash_journal e c =
     (case central_id e of
        Inl err \<Rightarrow> Inl err
      | Inr i \<Rightarrow>
          (case configured_central e c i of
             Some j \<Rightarrow> Inr (Some j)
           | None \<Rightarrow> Inr (fallback_central e c)))"

subsection \<open>Reaction to a change of the source journal\<close>

text \<open>
  The body of the loop of \<open>_onchange_from_enforce_ou\<close>, and the loop over the
  recordset. Two operating units are equal as recordsets when their identifiers are.
\<close>

definition onchange_from_enforce_ou_rec :: "env \<Rightarrow> cash_transfer \<Rightarrow> cash_transfer" where
  "onchange_from_enforce_ou_rec e r =
     (let user_ou = get_user_default_ou e
      in if company_id r \<noteq> None \<and> user_ou \<noteq> None then
           (case journal_id_from r of
              None \<Rightarrow> r
            | Some jf \<Rightarrow>
                if j_operating_unit_id jf \<noteq> user_ou then
                  (case find_cash_journal_by_ou e (company_id r) user_ou of
                     None \<Rightarrow> r
                   | Some j \<Rightarrow> r\<lparr>journal_id_from := Some j\<rparr>)
                else r)
         else r)"

definition onchange_from_enforce_ou :: "env \<Rightarrow> cash_transfer list \<Rightarrow> cash_transfer list" where
  "onchange_from_enforce_ou e rs = map (onchange_from_enforce_ou_rec e) rs"

subsection \<open>Validation and posting\<close>

definition main_account :: "journal option \<Rightarrow> int option" where
  "main_account jo =
     (case jo of
        None \<Rightarrow> None
      | Some j \<Rightarrow>
          (case default_account_id j of
             Some a \<Rightarrow> Some a
           | None \<Rightarrow>
               (case payment_debit_account_id j of
                  Some a \<Rightarrow> Some a
                | None \<Rightarrow> payment_credit_account_id j)))"

text \<open>The decimal text of an integer, as \<open>'%s' % rec.id\<close> gives it.\<close>

fun str_nat :: "nat \<Rightarrow> string" where
  "str_nat n =
     (if n < 10 then [''0123456789'' ! n]
      else str_nat (n div 10) @ [''0123456789'' ! (n mod 10)])"

declare str_nat.simps [simp del]

definition str_int :: "int \<Rightarrow> string" where
  "str_int i = (if i < 0 then CHR ''-'' # str_nat (nat (- i)) else str_nat (nat i))"

text \<open>
  Lines 150 to 186. The two branches of the source are kept apart: the first is taken
  when the currency of the transfer differs from the currency of the company, the
  second otherwise. The translation function \<open>_\<close> is taken as the identity.
\<close>

definition company_currency :: "cash_transfer \<Rightarrow> int option" where
  "company_currency r = (case company_id r of None \<Rightarrow> None | Some c \<Rightarrow> c_currency_id c)"

definition lines_transfer_currency ::
  "cash_transfer \<Rightarrow> journal \<Rightarrow> journal \<Rightarrow> int \<Rightarrow> int \<Rightarrow> move_line \<times> move_line" where
  "lines_transfer_currency r jf jt acc_from acc_to =
     (\<lparr>l_name = ''Entrada a '' @ j_name jt, l_account_id = acc_to,
       l_debit = amount r, l_credit = 0,
       l_currency_id = currency_id r, l_company_id = company_ident (company_id r)\<rparr>,
      \<lparr>l_name = ''Salida de '' @ j_name jf, l_account_id = acc_from,
       l_debit = 0, l_credit = amount r,
       l_currency_id = currency_id r, l_company_id = company_ident (company_id r)\<rparr>)"

definition lines_company_currency ::
  "cash_transfer \<Rightarrow> journal \<Rightarrow> journal \<Rightarrow> int \<Rightarrow> int \<Rightarrow> move_line \<times> move_line" where
  "lines_company_currency r jf jt acc_from acc_to =
     (\<lparr>l_name = ''Entrada a '' @ j_name jt, l_account_id = acc_to,
       l_debit = amount r, l_credit = 0,
       l_currency_id = company_currency r, l_company_id = company_ident (company_id r)\<rparr>,
      \<lparr>l_name = ''Salida de '' @ j_name jf, l_account_id = acc_from,
       l_debit = 0, l_credit = amount r,
       l_currency_id = company_currency r, l_company_id = company_ident (company_id r)\<rparr>)"

definition transfer_lines ::
  "cash_transfer \<Rightarrow> journal \<Rightarrow> journal \<Rightarrow> int \<Rightarrow> int \<Rightarrow> move_line \<times> move_line" where
  "transfer_lines r jf jt acc_from acc_to =
     (if currency_id r \<noteq> company_currency r
      then lines_transfer_currency r jf jt acc_from acc_to
      else lines_company_currency r jf jt acc_from acc_to)"

text \<open>\<open>create\<close> followed by \<open>action_post\<close>, as the model of the ledger records them.\<close>

definition create_move ::
  "string \<Rightarrow> int \<Rightarrow> string \<Rightarrow> move_line list \<Rightarrow> int option \<Rightarrow> account_move" where
  "create_move d j rf ls c =
     \<lparr>m_date = d, m_journal_id = j, m_ref = rf, m_line_ids = ls, m_company_id = c,
      m_state = ''draft''\<rparr>"

definition action_post :: "account_move \<Rightarrow> account_move" where
  "action_post m = m\<lparr>m_state := ''posted''\<rparr>"

text \<open>
  The body of the loop of \<open>action_validate\<close> on one record: the error raised, or the
  environment with the posted move and the record in state validated. Every
  \<open>raise\<close> of the body comes before the move is created.
\<close>

definition action_validate_rec :: "env \<Rightarrow> cash_transfer \<Rightarrow> error + (env \<times> cash_transfer)" where
  "action_validate_rec e r =
     (if amount r \<le> 0 then Inl (UserError ''El importe debe ser mayor a cero.'')
      else
        (case (journal_id_from r, journal_id_to r) of
           (Some jf, Some jt) \<Rightarrow>
             if j_id jf = j_id jt then
               Inl (UserError ''El diario de origen y destino no pueden ser el mismo.'')
             else
               (case get_central_cash_journal e (company_id r) of
                  Inl err \<Rightarrow> Inl err
                | Inr central \<Rightarrow>
                    if (case central of None \<Rightarrow> False | Some cj \<Rightarrow> j_id jt \<noteq> j_id cj) then
                      Inl (UserError ''El diario destino debe ser el Diario Central configurado.'')
                    else
                      (case (main_account (Some jf), main_account (Some jt)) of
                         (Some acc_from, Some acc_to) \<Rightarrow>
                           (let (line_in, line_out) = transfer_lines r jf jt acc_from acc_to;
                                move = create_move (date r) (j_id jt)
                                         (''Transferencia de efectivo #'' @ str_int (t_id r))
                                         [line_in, line_out] (company_ident (company_id r))
                            in Inr (e\<lparr>account_moves := account_moves e @ [action_post move]\<rparr>,
                                    r\<lparr>state := ''validated''\<rparr>))
                       | _ \<Rightarrow>
                           Inl (UserError ''Falta configurar la cuenta principal en uno de los diarios.'')))
         | _ \<Rightarrow> Inl (UserError ''Debe seleccionar ambos diarios.'')))"

text \<open>
  \<open>action_validate\<close> on a recordset: the records in order. The result holds the
  environment and the records as they are when the method returns \<open>True\<close> or raises;
  what the transaction of the caller does after an exception is outside the module.
\<close>

fun action_validate :: "env \<Rightarrow> cash_transfer list \<Rightarrow> env \<times> cash_transfer list \<times> (error + bool)" where
  "action_validate e [] = (e, [], Inr True)"
| "action_validate e (r # rs) =
     (case action_validate_rec e r of
        Inl err \<Rightarrow> (e, r # rs, Inl err)
      | Inr (e1, r1) \<Rightarrow>
          (case action_validate e1 rs of (e2, rs2, res) \<Rightarrow> (e2, r1 # rs2, res)))"

text \<open>The move of lines 188 to 196, once created and posted.\<close>

definition posted_move :: "cash_transfer \<Rightarrow> journal \<Rightarrow> journal \<Rightarrow> int \<Rightarrow> int \<Rightarrow> account_move" where
  "posted_move r jf jt acc_from acc_to =
     action_post (create_move (date r) (j_id jt)
       (''Transferencia de efectivo #'' @ str_int (t_id r))
       [fst (transfer_lines r jf jt acc_from acc_to), snd (transfer_lines r jf jt acc_from acc_to)]
       (company_ident (company_id r)))"

subsection \<open>The errors of the specification, and an example\<close>

definition InvalidAmount :: error where
  "InvalidAmount = UserError ''El importe debe ser mayor a cero.''"

definition MissingJournal :: error where
  "MissingJournal = UserError ''Debe seleccionar ambos diarios.''"

definition SameJournal :: error where
  "SameJournal = UserError ''El diario de origen y destino no pueden ser el mismo.''"

definition DestinationMustBeCentral :: error where
  "DestinationMustBeCentral = UserError ''El diario destino debe ser el Diario Central configurado.''"

definition MissingJournalAccount :: error where
  "MissingJournalAccount = UserError ''Falta configurar la cuenta principal en uno de los diarios.''"

text \<open>
  A company with three cash journals: J1 of unit 10, J2 of the unit Central (11), J3
  without unit; the acting user belongs to unit 10 and no parameter is configured.
\<close>

definition ex_company :: company where
  "ex_company = \<lparr>c_id = 1, c_currency_id = Some 19\<rparr>"

definition ex_j1 :: journal where
  "ex_j1 = \<lparr>j_id = 1, j_name = ''Caja Sucursal'', j_type = ''cash'', j_company_id = 1,
     j_operating_unit_id = Some 10, default_account_id = Some 101,
     payment_debit_account_id = None, payment_credit_account_id = None\<rparr>"

definition ex_j2 :: journal where
  "ex_j2 = \<lparr>j_id = 2, j_name = ''Caja Central'', j_type = ''cash'', j_company_id = 1,
     j_operating_unit_id = Some 11, default_account_id = Some 102,
     payment_debit_account_id = None, payment_credit_account_id = None\<rparr>"

definition ex_j3 :: journal where
  "ex_j3 = \<lparr>j_id = 3, j_name = ''Caja Chica'', j_type = ''cash'', j_company_id = 1,
     j_operating_unit_id = None, default_account_id = None,
     payment_debit_account_id = None, payment_credit_account_id = Some 103\<rparr>"

definition ex_j4 :: journal where
  "ex_j4 = \<lparr>j_id = 4, j_name = ''Caja Sucursal 2'', j_type = ''cash'', j_company_id = 1,
     j_operating_unit_id = Some 10, default_account_id = None,
     payment_debit_account_id = None, payment_credit_account_id = None\<rparr>"

definition ex_env :: env where
  "ex_env = \<lparr>journals = [ex_j4, ex_j3, ex_j2, ex_j1],
     operating_units =
       [\<lparr>ou_id = 10, ou_company_id = 1, ou_name = ''Sucursal Norte'', ou_code = ''NORTE''\<rparr>,
        \<lparr>ou_id = 11, ou_company_id = 1, ou_name = ''Casa central'', ou_code = ''CC''\<rparr>],
     config_parameter = (\<lambda>k. None),
     user_default_operating_unit_id = Some 10,
     account_moves = []\<rparr>"

definition ex_env_param :: "string \<Rightarrow> env" where
  "ex_env_param v =
     ex_env\<lparr>config_parameter :=
       (\<lambda>k. if k = ''cash_transfer.central_journal_id'' then Some v else None)\<rparr>"

definition ex_transfer :: cash_transfer where
  "ex_transfer = \<lparr>t_id = 7, date = ''2024-05-31'', company_id = Some ex_company,
     journal_id_from = Some ex_j1, journal_id_to = Some ex_j2, amount = 100,
     currency_id = Some 19, state = ''draft''\<rparr>"

section \<open>Properties\<close>

lemmas ex_defs = ex_env_def ex_j1_def ex_j2_def ex_j3_def ex_j4_def ex_company_def ex_transfer_def

subsection \<open>The cash journal of a unit\<close>

lemma search_limit1_id_asc_None:
  "search_limit1_id_asc d t = None \<longleftrightarrow> (\<forall>j \<in> set t. \<not> d j)"
proof -
  have "search_limit1_id_asc d t = None \<longleftrightarrow> sort_key j_id (filter d t) = []"
    by (simp add: search_limit1_id_asc_def split: list.splits)
  also have "\<dots> \<longleftrightarrow> set (sort_key j_id (filter d t)) = {}"
    by (simp only: set_empty)
  also have "\<dots> \<longleftrightarrow> (\<forall>j \<in> set t. \<not> d j)"
    by auto
  finally show ?thesis .
qed

lemma search_limit1_id_asc_Some:
  assumes "search_limit1_id_asc d t = Some r"
  shows "r \<in> set t \<and> d r \<and> (\<forall>j \<in> set t. d j \<longrightarrow> j_id r \<le> j_id j)"
proof -
  from assms obtain rs where srt: "sort_key j_id (filter d t) = r # rs"
    by (auto simp: search_limit1_id_asc_def split: list.splits)
  have mem: "set (r # rs) = {j \<in> set t. d j}"
    unfolding srt [symmetric] by auto
  have "sorted (map j_id (r # rs))"
    unfolding srt [symmetric] by (rule sorted_sort_key)
  then have least: "\<forall>j \<in> set rs. j_id r \<le> j_id j"
    by simp
  from mem have r_in: "r \<in> set t" "d r"
    by auto
  have "j_id r \<le> j_id j" if "j \<in> set t" "d j" for j
  proof -
    from that mem have "j = r \<or> j \<in> set rs" by auto
    with least show ?thesis by auto
  qed
  with r_in show ?thesis by blast
qed

text \<open>
  C6. \<open>_find_cash_journal_by_ou\<close> searches the journals of type cash of the given
  company, filters on the operating unit only when one is supplied, and returns a
  match whose identifier is the lowest among the matches; it returns nothing exactly
  when no journal matches.
\<close>

theorem find_cash_journal_by_ou_lowest_id:
  "(find_cash_journal_by_ou e c ou = None \<longleftrightarrow>
      (\<forall>j \<in> set (journals e).
         \<not> (j_type j = ''cash'' \<and> Some (j_company_id j) = company_ident c \<and>
            (\<forall>u. ou = Some u \<longrightarrow> j_operating_unit_id j = Some u)))) \<and>
   (\<forall>r. find_cash_journal_by_ou e c ou = Some r \<longrightarrow>
      r \<in> set (journals e) \<and> j_type r = ''cash'' \<and> Some (j_company_id r) = company_ident c \<and>
      (\<forall>u. ou = Some u \<longrightarrow> j_operating_unit_id r = Some u) \<and>
      (\<forall>j \<in> set (journals e).
         j_type j = ''cash'' \<and> Some (j_company_id j) = company_ident c \<and>
         (\<forall>u. ou = Some u \<longrightarrow> j_operating_unit_id j = Some u)
         \<longrightarrow> j_id r \<le> j_id j))"
proof -
  have dom: "cash_journal_domain c ou j \<longleftrightarrow>
      (j_type j = ''cash'' \<and> Some (j_company_id j) = company_ident c \<and>
       (\<forall>u. ou = Some u \<longrightarrow> j_operating_unit_id j = Some u))" for j
    by (cases ou) (simp_all add: cash_journal_domain_def)
  have none: "find_cash_journal_by_ou e c ou = None \<longleftrightarrow>
      (\<forall>j \<in> set (journals e). \<not> cash_journal_domain c ou j)"
    by (simp add: find_cash_journal_by_ou_def search_limit1_id_asc_None)
  have some: "r \<in> set (journals e) \<and> cash_journal_domain c ou r \<and>
      (\<forall>j \<in> set (journals e). cash_journal_domain c ou j \<longrightarrow> j_id r \<le> j_id j)"
    if "find_cash_journal_by_ou e c ou = Some r" for r
    using that unfolding find_cash_journal_by_ou_def by (rule search_limit1_id_asc_Some)
  show ?thesis
    using none some unfolding dom by blast
qed

theorem find_cash_journal_by_ou_lowest_id_witness:
  "find_cash_journal_by_ou ex_env (Some ex_company) (Some 10) = Some ex_j1 \<and>
   ex_j4 \<in> set (journals ex_env) \<and> j_type ex_j4 = ''cash'' \<and>
   Some (j_company_id ex_j4) = company_ident (Some ex_company) \<and>
   j_operating_unit_id ex_j4 = Some 10 \<and> j_id ex_j1 \<le> j_id ex_j4 \<and>
   find_cash_journal_by_ou ex_env (Some ex_company) (Some 12) = None"
proof -
  have h: "find_cash_journal_by_ou ex_env (Some ex_company) (Some 10) = Some ex_j1"
    by (simp add: find_cash_journal_by_ou_def search_limit1_id_asc_def cash_journal_domain_def
        company_ident_def ex_defs)
  have n: "\<forall>j \<in> set (journals ex_env).
         \<not> (j_type j = ''cash'' \<and> Some (j_company_id j) = company_ident (Some ex_company) \<and>
            (\<forall>u. Some 12 = Some u \<longrightarrow> j_operating_unit_id j = Some u))"
    by (simp add: company_ident_def ex_defs)
  have m: "ex_j4 \<in> set (journals ex_env)" "j_type ex_j4 = ''cash''"
    "Some (j_company_id ex_j4) = company_ident (Some ex_company)"
    "j_operating_unit_id ex_j4 = Some 10"
    by (simp_all add: company_ident_def ex_defs)
  from find_cash_journal_by_ou_lowest_id [of ex_env "Some ex_company" "Some 10"] h m
  have "j_id ex_j1 \<le> j_id ex_j4" by blast
  moreover from find_cash_journal_by_ou_lowest_id [of ex_env "Some ex_company" "Some 12"] n
  have "find_cash_journal_by_ou ex_env (Some ex_company) (Some 12) = None" by blast
  ultimately show ?thesis using h m by simp
qed

subsection \<open>Validation of one record\<close>

lemma validate_rec_amount:
  "amount r \<le> 0 \<Longrightarrow> action_validate_rec e r = Inl InvalidAmount"
  by (simp add: action_validate_rec_def InvalidAmount_def)

lemma validate_rec_missing:
  "0 < amount r \<Longrightarrow> journal_id_from r = None \<or> journal_id_to r = None \<Longrightarrow>
   action_validate_rec e r = Inl MissingJournal"
  by (auto simp: action_validate_rec_def MissingJournal_def split: option.splits)

lemma validate_rec_same:
  "0 < amount r \<Longrightarrow> journal_id_from r = Some jf \<Longrightarrow> journal_id_to r = Some jt \<Longrightarrow>
   j_id jf = j_id jt \<Longrightarrow> action_validate_rec e r = Inl SameJournal"
  by (simp add: action_validate_rec_def SameJournal_def)

lemma validate_rec_resolution_raises:
  "0 < amount r \<Longrightarrow> journal_id_from r = Some jf \<Longrightarrow> journal_id_to r = Some jt \<Longrightarrow>
   j_id jf \<noteq> j_id jt \<Longrightarrow> get_central_cash_journal e (company_id r) = Inl err \<Longrightarrow>
   action_validate_rec e r = Inl err"
  by (simp add: action_validate_rec_def)

lemma validate_rec_not_central:
  "0 < amount r \<Longrightarrow> journal_id_from r = Some jf \<Longrightarrow> journal_id_to r = Some jt \<Longrightarrow>
   j_id jf \<noteq> j_id jt \<Longrightarrow> get_central_cash_journal e (company_id r) = Inr (Some cj) \<Longrightarrow>
   j_id jt \<noteq> j_id cj \<Longrightarrow> action_validate_rec e r = Inl DestinationMustBeCentral"
  by (simp add: action_validate_rec_def DestinationMustBeCentral_def)

lemma validate_rec_no_account:
  "0 < amount r \<Longrightarrow> journal_id_from r = Some jf \<Longrightarrow> journal_id_to r = Some jt \<Longrightarrow>
   j_id jf \<noteq> j_id jt \<Longrightarrow> get_central_cash_journal e (company_id r) = Inr central \<Longrightarrow>
   \<forall>cj. central = Some cj \<longrightarrow> j_id jt = j_id cj \<Longrightarrow>
   main_account (Some jf) = None \<or> main_account (Some jt) = None \<Longrightarrow>
   action_validate_rec e r = Inl MissingJournalAccount"
  by (auto simp: action_validate_rec_def MissingJournalAccount_def split: option.splits)

lemma validate_rec_success:
  "0 < amount r \<Longrightarrow> journal_id_from r = Some jf \<Longrightarrow> journal_id_to r = Some jt \<Longrightarrow>
   j_id jf \<noteq> j_id jt \<Longrightarrow> get_central_cash_journal e (company_id r) = Inr central \<Longrightarrow>
   \<forall>cj. central = Some cj \<longrightarrow> j_id jt = j_id cj \<Longrightarrow>
   main_account (Some jf) = Some acc_from \<Longrightarrow> main_account (Some jt) = Some acc_to \<Longrightarrow>
   action_validate_rec e r =
     Inr (e\<lparr>account_moves := account_moves e @ [posted_move r jf jt acc_from acc_to]\<rparr>,
          r\<lparr>state := ''validated''\<rparr>)"
  by (auto simp: action_validate_rec_def posted_move_def Let_def split: option.splits prod.splits)

lemma action_validate_raises:
  "action_validate_rec e r = Inl err \<Longrightarrow> action_validate e (r # rs) = (e, r # rs, Inl err)"
  by simp

lemma action_validate_single:
  "action_validate_rec e r = Inr (e1, r1) \<Longrightarrow> action_validate e [r] = (e1, [r1], Inr True)"
  by simp

lemma transfer_lines_in:
  "fst (transfer_lines r jf jt acc_from acc_to) =
     \<lparr>l_name = ''Entrada a '' @ j_name jt, l_account_id = acc_to, l_debit = amount r,
      l_credit = 0, l_currency_id = currency_id r, l_company_id = company_ident (company_id r)\<rparr>"
  by (simp add: transfer_lines_def lines_transfer_currency_def lines_company_currency_def)

lemma transfer_lines_out:
  "snd (transfer_lines r jf jt acc_from acc_to) =
     \<lparr>l_name = ''Salida de '' @ j_name jf, l_account_id = acc_from, l_debit = 0,
      l_credit = amount r, l_currency_id = currency_id r, l_company_id = company_ident (company_id r)\<rparr>"
  by (simp add: transfer_lines_def lines_transfer_currency_def lines_company_currency_def)

text \<open>
  C1. A record with a strictly positive amount, both journals set and distinct, the
  destination equal to the central journal when the resolution returns one, and a main
  account on both journals: \<open>action_validate\<close> adds exactly one move to the ledger, dated
  as the record, journaled under the destination, posted, with exactly two lines: the
  first on the main account of the destination with debit the amount and credit 0, the
  second on the main account of the source with debit 0 and credit the amount; the
  record ends in state validated, and debits minus credits sum to zero.
\<close>

theorem action_validate_posts_balanced_move:
  assumes "0 < amount r"
    and "journal_id_from r = Some jf" and "journal_id_to r = Some jt"
    and "j_id jf \<noteq> j_id jt"
    and "get_central_cash_journal e (company_id r) = Inr central"
    and "\<forall>cj. central = Some cj \<longrightarrow> j_id jt = j_id cj"
    and "main_account (Some jf) = Some acc_from" and "main_account (Some jt) = Some acc_to"
  shows "\<exists>move line_in line_out.
      action_validate e [r] =
        (e\<lparr>account_moves := account_moves e @ [move]\<rparr>, [r\<lparr>state := ''validated''\<rparr>], Inr True) \<and>
      m_date move = date r \<and> m_journal_id move = j_id jt \<and>
      m_ref move = ''Transferencia de efectivo #'' @ str_int (t_id r) \<and>
      m_company_id move = company_ident (company_id r) \<and> m_state move = ''posted'' \<and>
      m_line_ids move = [line_in, line_out] \<and>
      l_account_id line_in = acc_to \<and> l_debit line_in = amount r \<and> l_credit line_in = 0 \<and>
      l_account_id line_out = acc_from \<and> l_debit line_out = 0 \<and> l_credit line_out = amount r \<and>
      sum_list (map l_debit (m_line_ids move)) - sum_list (map l_credit (m_line_ids move)) = 0"
proof -
  let ?move = "posted_move r jf jt acc_from acc_to"
  let ?line_in = "fst (transfer_lines r jf jt acc_from acc_to)"
  let ?line_out = "snd (transfer_lines r jf jt acc_from acc_to)"
  have "action_validate_rec e r =
      Inr (e\<lparr>account_moves := account_moves e @ [?move]\<rparr>, r\<lparr>state := ''validated''\<rparr>)"
    using assms by (rule validate_rec_success)
  then have run: "action_validate e [r] =
      (e\<lparr>account_moves := account_moves e @ [?move]\<rparr>, [r\<lparr>state := ''validated''\<rparr>], Inr True)"
    by (rule action_validate_single)
  have head: "m_date ?move = date r" "m_journal_id ?move = j_id jt"
    "m_ref ?move = ''Transferencia de efectivo #'' @ str_int (t_id r)"
    "m_company_id ?move = company_ident (company_id r)" "m_state ?move = ''posted''"
    "m_line_ids ?move = [?line_in, ?line_out]"
    by (simp_all add: posted_move_def action_post_def create_move_def)
  have lines: "l_account_id ?line_in = acc_to" "l_debit ?line_in = amount r" "l_credit ?line_in = 0"
    "l_account_id ?line_out = acc_from" "l_debit ?line_out = 0" "l_credit ?line_out = amount r"
    by (simp_all add: transfer_lines_in transfer_lines_out)
  have "sum_list (map l_debit (m_line_ids ?move)) - sum_list (map l_credit (m_line_ids ?move)) = 0"
    by (simp add: head lines)
  with run head lines show ?thesis by blast
qed

lemma ex_central: "get_central_cash_journal ex_env (Some ex_company) = Inr (Some ex_j2)"
  by code_simp

theorem action_validate_posts_balanced_move_witness:
  "0 < amount ex_transfer \<and> journal_id_from ex_transfer = Some ex_j1 \<and>
   journal_id_to ex_transfer = Some ex_j2 \<and> j_id ex_j1 \<noteq> j_id ex_j2 \<and>
   get_central_cash_journal ex_env (company_id ex_transfer) = Inr (Some ex_j2) \<and>
   main_account (Some ex_j1) = Some 101 \<and> main_account (Some ex_j2) = Some 102 \<and>
   (\<exists>move line_in line_out.
      action_validate ex_env [ex_transfer] =
        (ex_env\<lparr>account_moves := account_moves ex_env @ [move]\<rparr>,
         [ex_transfer\<lparr>state := ''validated''\<rparr>], Inr True) \<and>
      m_date move = ''2024-05-31'' \<and> m_journal_id move = 2 \<and> m_state move = ''posted'' \<and>
      m_line_ids move = [line_in, line_out] \<and>
      l_account_id line_in = 102 \<and> l_debit line_in = 100 \<and> l_credit line_in = 0 \<and>
      l_account_id line_out = 101 \<and> l_debit line_out = 0 \<and> l_credit line_out = 100 \<and>
      sum_list (map l_debit (m_line_ids move)) - sum_list (map l_credit (m_line_ids move)) = 0)"
proof -
  have h1: "0 < amount ex_transfer" by (simp add: ex_defs)
  have h2: "journal_id_from ex_transfer = Some ex_j1" by (simp add: ex_defs)
  have h3: "journal_id_to ex_transfer = Some ex_j2" by (simp add: ex_defs)
  have h4: "j_id ex_j1 \<noteq> j_id ex_j2" by (simp add: ex_defs)
  have h5: "get_central_cash_journal ex_env (company_id ex_transfer) = Inr (Some ex_j2)"
    using ex_central by (simp add: ex_transfer_def)
  have h6: "\<forall>cj. Some ex_j2 = Some cj \<longrightarrow> j_id ex_j2 = j_id cj" by simp
  have h7: "main_account (Some ex_j1) = Some 101" by (simp add: main_account_def ex_defs)
  have h8: "main_account (Some ex_j2) = Some 102" by (simp add: main_account_def ex_defs)
  have v: "date ex_transfer = ''2024-05-31''" "j_id ex_j2 = 2" "amount ex_transfer = 100"
    by (simp_all add: ex_defs)
  from action_validate_posts_balanced_move [OF h1 h2 h3 h4 h5 h6 h7 h8]
  show ?thesis unfolding v using h1 h2 h3 h4 h5 h7 h8 unfolding v by blast
qed

text \<open>
  C2. \<open>action_validate\<close> evaluates the checks of a record in this order, and the first
  one violated raises its error, with no move created and the record unchanged:
  (1) the amount is strictly positive, else InvalidAmount; (2) both journals are set,
  else MissingJournal; (3) the journals differ, else SameJournal; (4) the destination
  is the central journal when the resolution returns one, else
  DestinationMustBeCentral; (5) both journals have a main account, else
  MissingJournalAccount. The resolution of the central journal is part of step (4):
  an error it raises itself is raised there, before step (5) (last conjunct).
\<close>

theorem action_validate_check_order:
  "(amount r \<le> 0 \<longrightarrow> action_validate e [r] = (e, [r], Inl InvalidAmount)) \<and>
   (0 < amount r \<and> (journal_id_from r = None \<or> journal_id_to r = None) \<longrightarrow>
      action_validate e [r] = (e, [r], Inl MissingJournal)) \<and>
   (\<forall>jf jt. 0 < amount r \<and> journal_id_from r = Some jf \<and> journal_id_to r = Some jt \<and>
      j_id jf = j_id jt \<longrightarrow>
      action_validate e [r] = (e, [r], Inl SameJournal)) \<and>
   (\<forall>jf jt cj. 0 < amount r \<and> journal_id_from r = Some jf \<and> journal_id_to r = Some jt \<and>
      j_id jf \<noteq> j_id jt \<and>
      get_central_cash_journal e (company_id r) = Inr (Some cj) \<and> j_id jt \<noteq> j_id cj \<longrightarrow>
      action_validate e [r] = (e, [r], Inl DestinationMustBeCentral)) \<and>
   (\<forall>jf jt central. 0 < amount r \<and> journal_id_from r = Some jf \<and> journal_id_to r = Some jt \<and>
      j_id jf \<noteq> j_id jt \<and>
      get_central_cash_journal e (company_id r) = Inr central \<and>
      (\<forall>cj. central = Some cj \<longrightarrow> j_id jt = j_id cj) \<and>
      (main_account (Some jf) = None \<or> main_account (Some jt) = None) \<longrightarrow>
      action_validate e [r] = (e, [r], Inl MissingJournalAccount)) \<and>
   (\<forall>jf jt err. 0 < amount r \<and> journal_id_from r = Some jf \<and> journal_id_to r = Some jt \<and>
      j_id jf \<noteq> j_id jt \<and>
      get_central_cash_journal e (company_id r) = Inl err \<longrightarrow>
      action_validate e [r] = (e, [r], Inl err))"
proof (intro conjI allI impI)
  assume "amount r \<le> 0"
  then show "action_validate e [r] = (e, [r], Inl InvalidAmount)"
    by (intro action_validate_raises validate_rec_amount)
next
  assume "0 < amount r \<and> (journal_id_from r = None \<or> journal_id_to r = None)"
  then show "action_validate e [r] = (e, [r], Inl MissingJournal)"
    by (intro action_validate_raises validate_rec_missing) simp_all
next
  fix jf jt
  assume "0 < amount r \<and> journal_id_from r = Some jf \<and> journal_id_to r = Some jt \<and>
      j_id jf = j_id jt"
  then show "action_validate e [r] = (e, [r], Inl SameJournal)"
    by (intro action_validate_raises validate_rec_same [of r jf jt]) simp_all
next
  fix jf jt cj
  assume "0 < amount r \<and> journal_id_from r = Some jf \<and> journal_id_to r = Some jt \<and>
      j_id jf \<noteq> j_id jt \<and>
      get_central_cash_journal e (company_id r) = Inr (Some cj) \<and> j_id jt \<noteq> j_id cj"
  then show "action_validate e [r] = (e, [r], Inl DestinationMustBeCentral)"
    by (intro action_validate_raises validate_rec_not_central [of r jf jt e cj]) simp_all
next
  fix jf jt central
  assume "0 < amount r \<and> journal_id_from r = Some jf \<and> journal_id_to r = Some jt \<and>
      j_id jf \<noteq> j_id jt \<and>
      get_central_cash_journal e (company_id r) = Inr central \<and>
      (\<forall>cj. central = Some cj \<longrightarrow> j_id jt = j_id cj) \<and>
      (main_account (Some jf) = None \<or> main_account (Some jt) = None)"
  then show "action_validate e [r] = (e, [r], Inl MissingJournalAccount)"
    by (intro action_validate_raises validate_rec_no_account [of r jf jt e central]) simp_all
next
  fix jf jt err
  assume "0 < amount r \<and> journal_id_from r = Some jf \<and> journal_id_to r = Some jt \<and>
      j_id jf \<noteq> j_id jt \<and>
      get_central_cash_journal e (company_id r) = Inl err"
  then show "action_validate e [r] = (e, [r], Inl err)"
    by (intro action_validate_raises validate_rec_resolution_raises [of r jf jt e err]) simp_all
qed

lemma ex_central_field:
  "get_central_cash_journal ex_env (company_id (ex_transfer\<lparr>journal_id_to := Some ex_j3\<rparr>)) = Inr (Some ex_j2)"
  "get_central_cash_journal ex_env (company_id (ex_transfer\<lparr>journal_id_from := Some ex_j4\<rparr>)) = Inr (Some ex_j2)"
  using ex_central by (simp_all add: ex_transfer_def)

lemma ex_central_raises:
  "get_central_cash_journal (ex_env\<lparr>config_parameter := \<lambda>k. Some ''abc''\<rparr>) (company_id ex_transfer) = Inl ValueError"
  by code_simp

theorem action_validate_check_order_witness:
  "action_validate ex_env [ex_transfer\<lparr>amount := 0\<rparr>] =
     (ex_env, [ex_transfer\<lparr>amount := 0\<rparr>], Inl InvalidAmount) \<and>
   action_validate ex_env [ex_transfer\<lparr>journal_id_to := None\<rparr>] =
     (ex_env, [ex_transfer\<lparr>journal_id_to := None\<rparr>], Inl MissingJournal) \<and>
   action_validate ex_env [ex_transfer\<lparr>journal_id_to := Some ex_j1\<rparr>] =
     (ex_env, [ex_transfer\<lparr>journal_id_to := Some ex_j1\<rparr>], Inl SameJournal) \<and>
   action_validate ex_env [ex_transfer\<lparr>journal_id_to := Some ex_j3\<rparr>] =
     (ex_env, [ex_transfer\<lparr>journal_id_to := Some ex_j3\<rparr>], Inl DestinationMustBeCentral) \<and>
   action_validate ex_env [ex_transfer\<lparr>journal_id_from := Some ex_j4\<rparr>] =
     (ex_env, [ex_transfer\<lparr>journal_id_from := Some ex_j4\<rparr>], Inl MissingJournalAccount) \<and>
   action_validate (ex_env\<lparr>config_parameter := \<lambda>k. Some ''abc''\<rparr>) [ex_transfer] =
     (ex_env\<lparr>config_parameter := \<lambda>k. Some ''abc''\<rparr>, [ex_transfer], Inl ValueError)"
proof (intro conjI)
  have "amount (ex_transfer\<lparr>amount := 0\<rparr>) \<le> 0" by simp
  with action_validate_check_order [of "ex_transfer\<lparr>amount := 0\<rparr>" ex_env]
  show "action_validate ex_env [ex_transfer\<lparr>amount := 0\<rparr>] =
     (ex_env, [ex_transfer\<lparr>amount := 0\<rparr>], Inl InvalidAmount)" by blast
next
  let ?r = "ex_transfer\<lparr>journal_id_to := None\<rparr>"
  have "0 < amount ?r \<and> (journal_id_from ?r = None \<or> journal_id_to ?r = None)"
    by (simp add: ex_defs)
  with action_validate_check_order [of ?r ex_env]
  show "action_validate ex_env [?r] = (ex_env, [?r], Inl MissingJournal)" by blast
next
  let ?r = "ex_transfer\<lparr>journal_id_to := Some ex_j1\<rparr>"
  have "0 < amount ?r \<and> journal_id_from ?r = Some ex_j1 \<and> journal_id_to ?r = Some ex_j1 \<and>
      j_id ex_j1 = j_id ex_j1"
    by (simp add: ex_defs)
  with action_validate_check_order [of ?r ex_env]
  show "action_validate ex_env [?r] = (ex_env, [?r], Inl SameJournal)" by blast
next
  let ?r = "ex_transfer\<lparr>journal_id_to := Some ex_j3\<rparr>"
  have "0 < amount ?r \<and> journal_id_from ?r = Some ex_j1 \<and> journal_id_to ?r = Some ex_j3 \<and>
      j_id ex_j1 \<noteq> j_id ex_j3 \<and>
      get_central_cash_journal ex_env (company_id ?r) = Inr (Some ex_j2) \<and> j_id ex_j3 \<noteq> j_id ex_j2"
    using ex_central_field(1) by (simp add: ex_defs)
  with action_validate_check_order [of ?r ex_env]
  show "action_validate ex_env [?r] = (ex_env, [?r], Inl DestinationMustBeCentral)" by blast
next
  let ?r = "ex_transfer\<lparr>journal_id_from := Some ex_j4\<rparr>"
  have "0 < amount ?r \<and> journal_id_from ?r = Some ex_j4 \<and> journal_id_to ?r = Some ex_j2 \<and>
      j_id ex_j4 \<noteq> j_id ex_j2 \<and>
      get_central_cash_journal ex_env (company_id ?r) = Inr (Some ex_j2) \<and>
      (\<forall>cj. Some ex_j2 = Some cj \<longrightarrow> j_id ex_j2 = j_id cj) \<and>
      (main_account (Some ex_j4) = None \<or> main_account (Some ex_j2) = None)"
    using ex_central_field(2) by (simp add: ex_defs main_account_def)
  with action_validate_check_order [of ?r ex_env]
  show "action_validate ex_env [?r] = (ex_env, [?r], Inl MissingJournalAccount)" by blast
next
  let ?e = "ex_env\<lparr>config_parameter := \<lambda>k. Some ''abc''\<rparr>"
  have "0 < amount ex_transfer \<and> journal_id_from ex_transfer = Some ex_j1 \<and>
      journal_id_to ex_transfer = Some ex_j2 \<and> j_id ex_j1 \<noteq> j_id ex_j2 \<and>
      get_central_cash_journal ?e (company_id ex_transfer) = Inl ValueError"
    using ex_central_raises by (simp add: ex_defs)
  with action_validate_check_order [of ex_transfer ?e]
  show "action_validate ?e [ex_transfer] = (?e, [ex_transfer], Inl ValueError)" by blast
qed

text \<open>
  C3. When the amount is positive, both journals are set and distinct, a central
  journal resolves for the company of the record and the destination is another
  journal, \<open>action_validate\<close> fails with DestinationMustBeCentral and creates no move.
\<close>

theorem action_validate_destination_must_be_central:
  assumes "0 < amount r"
    and "journal_id_from r = Some jf" and "journal_id_to r = Some jt"
    and "j_id jf \<noteq> j_id jt"
    and "get_central_cash_journal e (company_id r) = Inr (Some cj)"
    and "j_id jt \<noteq> j_id cj"
  shows "\<exists>e1 rs1. action_validate e (r # rs) = (e1, rs1, Inl DestinationMustBeCentral) \<and>
      account_moves e1 = account_moves e \<and> rs1 = r # rs"
proof -
  have "action_validate_rec e r = Inl DestinationMustBeCentral"
    using assms by (rule validate_rec_not_central)
  then have "action_validate e (r # rs) = (e, r # rs, Inl DestinationMustBeCentral)"
    by (rule action_validate_raises)
  then show ?thesis by simp
qed

theorem action_validate_destination_must_be_central_witness:
  "0 < amount (ex_transfer\<lparr>journal_id_to := Some ex_j3\<rparr>) \<and>
   journal_id_from (ex_transfer\<lparr>journal_id_to := Some ex_j3\<rparr>) = Some ex_j1 \<and>
   journal_id_to (ex_transfer\<lparr>journal_id_to := Some ex_j3\<rparr>) = Some ex_j3 \<and>
   j_id ex_j1 \<noteq> j_id ex_j3 \<and>
   get_central_cash_journal ex_env (company_id (ex_transfer\<lparr>journal_id_to := Some ex_j3\<rparr>)) =
     Inr (Some ex_j2) \<and>
   j_id ex_j3 \<noteq> j_id ex_j2 \<and>
   (\<exists>e1 rs1. action_validate ex_env [ex_transfer\<lparr>journal_id_to := Some ex_j3\<rparr>, ex_transfer] =
      (e1, rs1, Inl DestinationMustBeCentral) \<and>
      account_moves e1 = account_moves ex_env \<and>
      rs1 = [ex_transfer\<lparr>journal_id_to := Some ex_j3\<rparr>, ex_transfer])"
proof -
  let ?r = "ex_transfer\<lparr>journal_id_to := Some ex_j3\<rparr>"
  have h1: "0 < amount ?r" by (simp add: ex_defs)
  have h2: "journal_id_from ?r = Some ex_j1" by (simp add: ex_defs)
  have h3: "journal_id_to ?r = Some ex_j3" by simp
  have h4: "j_id ex_j1 \<noteq> j_id ex_j3" by (simp add: ex_defs)
  have h5: "get_central_cash_journal ex_env (company_id ?r) = Inr (Some ex_j2)"
    by (rule ex_central_field(1))
  have h6: "j_id ex_j3 \<noteq> j_id ex_j2" by (simp add: ex_defs)
  from action_validate_destination_must_be_central [OF h1 h2 h3 h4 h5 h6, of "[ex_transfer]"]
  show ?thesis using h1 h2 h3 h4 h5 h6 by blast
qed

subsection \<open>Resolution of the central journal\<close>

lemma search_limit1_None: "search_limit1 d t = None \<longleftrightarrow> (\<forall>x \<in> set t. \<not> d x)"
proof -
  have "search_limit1 d t = None \<longleftrightarrow> filter d t = []"
    by (simp add: search_limit1_def split: list.splits)
  then show ?thesis
    by (simp add: filter_empty_conv)
qed

lemma search_limit1_Some:
  "search_limit1 d t = Some r \<longleftrightarrow> (\<exists>pre suf. t = pre @ r # suf \<and> d r \<and> (\<forall>x \<in> set pre. \<not> d x))"
proof
  assume "search_limit1 d t = Some r"
  then obtain rs where "filter d t = r # rs"
    by (auto simp: search_limit1_def split: list.splits)
  then show "\<exists>pre suf. t = pre @ r # suf \<and> d r \<and> (\<forall>x \<in> set pre. \<not> d x)"
    by (auto simp: filter_eq_Cons_iff)
next
  assume "\<exists>pre suf. t = pre @ r # suf \<and> d r \<and> (\<forall>x \<in> set pre. \<not> d x)"
  then obtain pre suf where t: "t = pre @ r # suf" and r: "d r" and pre: "\<forall>x \<in> set pre. \<not> d x"
    by blast
  from pre have "filter d pre = []" by (simp add: filter_empty_conv)
  with t r show "search_limit1 d t = Some r"
    by (simp add: search_limit1_def)
qed

lemma browse_exists_Some:
  "browse_exists t i = Some j \<Longrightarrow> j \<in> set t \<and> j_id j = i"
  by (auto simp: browse_exists_def find_Some_iff)

lemma browse_exists_None:
  "browse_exists t i = None \<longleftrightarrow> (\<forall>j \<in> set t. j_id j \<noteq> i)"
  by (auto simp: browse_exists_def find_None_iff)

lemma configured_central_Some:
  "configured_central e c i = Some j \<longleftrightarrow>
     i \<noteq> 0 \<and> browse_exists (journals e) i = Some j \<and>
     Some (j_company_id j) = company_ident c \<and> j_type j = ''cash''"
  by (auto simp: configured_central_def split: option.splits)

lemma get_central_configured:
  "central_id e = Inr i \<Longrightarrow> configured_central e c i = Some j \<Longrightarrow>
   get_central_cash_journal e c = Inr (Some j)"
  by (simp add: get_central_cash_journal_def)

lemma get_central_fallback:
  "central_id e = Inr i \<Longrightarrow> configured_central e c i = None \<Longrightarrow>
   get_central_cash_journal e c = Inr (fallback_central e c)"
  by (simp add: get_central_cash_journal_def)

lemma fallback_central_Some:
  "fallback_central e c = Some j \<longleftrightarrow>
     (\<exists>u. search_limit1 (central_ou_domain c) (operating_units e) = Some u \<and>
          search_limit1 (\<lambda>j. j_type j = ''cash'' \<and> Some (j_company_id j) = company_ident c \<and>
                             j_operating_unit_id j = Some (ou_id u)) (journals e) = Some j)"
  by (auto simp: fallback_central_def split: option.splits)

lemma ilike_contains: "ilike v pat \<longleftrightarrow> (\<exists>a b. map lower v = a @ map lower pat @ b)"
  by (simp add: ilike_def sublist_def)

text \<open>
  C4. With \<open>i\<close> the integer read from the parameter
  \<open>cash_transfer.central_journal_id\<close>: \<open>_get_central_cash_journal\<close> returns the journal
  of identifier \<open>i\<close> when \<open>i\<close> is not 0 and that journal exists, is of the company and of
  type cash, whatever the fallback would find. Otherwise it returns the result of the
  fallback: with the first operating unit of the company whose name contains Central
  (letter case ignored) or whose code is exactly CENTRAL, a cash journal of the company
  tagged with that unit. It returns nothing exactly when neither path gives a journal.
\<close>

theorem get_central_cash_journal_resolution:
  assumes "central_id e = Inr i"
  shows
    "(\<forall>j. i \<noteq> 0 \<and> j \<in> set (journals e) \<and> browse_exists (journals e) i = Some j \<and>
          Some (j_company_id j) = company_ident c \<and> j_type j = ''cash'' \<longrightarrow>
          get_central_cash_journal e c = Inr (Some j)) \<and>
     (\<not> (\<exists>j. i \<noteq> 0 \<and> browse_exists (journals e) i = Some j \<and>
             Some (j_company_id j) = company_ident c \<and> j_type j = ''cash'') \<longrightarrow>
          get_central_cash_journal e c = Inr (fallback_central e c)) \<and>
     (\<forall>j. fallback_central e c = Some j \<longleftrightarrow>
          (\<exists>u pre suf. operating_units e = pre @ u # suf \<and>
             (\<forall>x \<in> set pre. \<not> central_ou_domain c x) \<and>
             Some (ou_company_id u) = company_ident c \<and>
             ((\<exists>a b. map lower (ou_name u) = a @ ''central'' @ b) \<or> ou_code u = ''CENTRAL'') \<and>
             search_limit1 (\<lambda>j. j_type j = ''cash'' \<and> Some (j_company_id j) = company_ident c \<and>
                                j_operating_unit_id j = Some (ou_id u)) (journals e) = Some j)) \<and>
     (\<forall>j. fallback_central e c = Some j \<longrightarrow>
          j \<in> set (journals e) \<and> j_type j = ''cash'' \<and> Some (j_company_id j) = company_ident c) \<and>
     (get_central_cash_journal e c = Inr None \<longleftrightarrow>
          \<not> (\<exists>j. i \<noteq> 0 \<and> browse_exists (journals e) i = Some j \<and>
             Some (j_company_id j) = company_ident c \<and> j_type j = ''cash'') \<and>
          fallback_central e c = None)"
proof -
  have low: "map lower ''Central'' = ''central''"
    by code_simp
  have dom: "central_ou_domain c u \<longleftrightarrow>
      Some (ou_company_id u) = company_ident c \<and>
      ((\<exists>a b. map lower (ou_name u) = a @ ''central'' @ b) \<or> ou_code u = ''CENTRAL'')" for u
    unfolding central_ou_domain_def ilike_contains low ..
  have conf: "configured_central e c i = None \<longleftrightarrow>
      \<not> (\<exists>j. i \<noteq> 0 \<and> browse_exists (journals e) i = Some j \<and>
             Some (j_company_id j) = company_ident c \<and> j_type j = ''cash'')"
    using configured_central_Some [of e c i] by (cases "configured_central e c i") auto
  have p1: "get_central_cash_journal e c = Inr (Some j)"
    if "i \<noteq> 0 \<and> j \<in> set (journals e) \<and> browse_exists (journals e) i = Some j \<and>
        Some (j_company_id j) = company_ident c \<and> j_type j = ''cash''" for j
    using that assms by (intro get_central_configured [of e i]) (simp_all add: configured_central_Some)
  have p2: "get_central_cash_journal e c = Inr (fallback_central e c)"
    if "\<not> (\<exists>j. i \<noteq> 0 \<and> browse_exists (journals e) i = Some j \<and>
             Some (j_company_id j) = company_ident c \<and> j_type j = ''cash'')"
    using that assms conf by (intro get_central_fallback [of e i]) simp_all
  have p3: "fallback_central e c = Some j \<longleftrightarrow>
          (\<exists>u pre suf. operating_units e = pre @ u # suf \<and>
             (\<forall>x \<in> set pre. \<not> central_ou_domain c x) \<and>
             Some (ou_company_id u) = company_ident c \<and>
             ((\<exists>a b. map lower (ou_name u) = a @ ''central'' @ b) \<or> ou_code u = ''CENTRAL'') \<and>
             search_limit1 (\<lambda>j. j_type j = ''cash'' \<and> Some (j_company_id j) = company_ident c \<and>
                                j_operating_unit_id j = Some (ou_id u)) (journals e) = Some j)" for j
    unfolding fallback_central_Some search_limit1_Some [of "central_ou_domain c"] dom
    by blast
  have p4: "j \<in> set (journals e) \<and> j_type j = ''cash'' \<and> Some (j_company_id j) = company_ident c"
    if "fallback_central e c = Some j" for j
    using that unfolding fallback_central_Some search_limit1_Some by auto
  have p5: "get_central_cash_journal e c = Inr None \<longleftrightarrow>
          \<not> (\<exists>j. i \<noteq> 0 \<and> browse_exists (journals e) i = Some j \<and>
             Some (j_company_id j) = company_ident c \<and> j_type j = ''cash'') \<and>
          fallback_central e c = None"
    unfolding conf [symmetric] using assms
    by (cases "configured_central e c i") (simp_all add: get_central_cash_journal_def)
  from p1 p2 p3 p4 p5 show ?thesis by blast
qed

theorem get_central_cash_journal_resolution_witness:
  "central_id (ex_env_param ''3'') = Inr 3 \<and> (3::int) \<noteq> 0 \<and>
   ex_j3 \<in> set (journals (ex_env_param ''3'')) \<and>
   browse_exists (journals (ex_env_param ''3'')) 3 = Some ex_j3 \<and>
   Some (j_company_id ex_j3) = company_ident (Some ex_company) \<and> j_type ex_j3 = ''cash'' \<and>
   fallback_central (ex_env_param ''3'') (Some ex_company) = Some ex_j2 \<and>
   get_central_cash_journal (ex_env_param ''3'') (Some ex_company) = Inr (Some ex_j3) \<and>
   central_id (ex_env_param ''5'') = Inr 5 \<and>
   get_central_cash_journal (ex_env_param ''5'') (Some ex_company) =
     Inr (fallback_central (ex_env_param ''5'') (Some ex_company))"
proof -
  have h: "central_id (ex_env_param ''3'') = Inr 3"
    by code_simp
  have c: "(3::int) \<noteq> 0 \<and> ex_j3 \<in> set (journals (ex_env_param ''3'')) \<and>
      browse_exists (journals (ex_env_param ''3'')) 3 = Some ex_j3 \<and>
      Some (j_company_id ex_j3) = company_ident (Some ex_company) \<and> j_type ex_j3 = ''cash''"
    by (simp add: ex_env_param_def browse_exists_def company_ident_def ex_defs)
  have f: "fallback_central (ex_env_param ''3'') (Some ex_company) = Some ex_j2"
    by code_simp
  have h5: "central_id (ex_env_param ''5'') = Inr 5"
    by code_simp
  have c5: "\<not> (\<exists>j. (5::int) \<noteq> 0 \<and> browse_exists (journals (ex_env_param ''5'')) 5 = Some j \<and>
      Some (j_company_id j) = company_ident (Some ex_company) \<and> j_type j = ''cash'')"
    by (simp add: ex_env_param_def browse_exists_def ex_defs)
  from get_central_cash_journal_resolution [OF h, of "Some ex_company"] c
  have r3: "get_central_cash_journal (ex_env_param ''3'') (Some ex_company) = Inr (Some ex_j3)"
    by blast
  from get_central_cash_journal_resolution [OF h5, of "Some ex_company"] c5
  have r5: "get_central_cash_journal (ex_env_param ''5'') (Some ex_company) =
     Inr (fallback_central (ex_env_param ''5'') (Some ex_company))"
    by blast
  from h c f r3 h5 r5 show ?thesis by blast
qed

subsection \<open>The two branches of the line construction\<close>

text \<open>
  C5. The branch of the line construction taken when the currency of the transfer
  differs from the currency of the company and the branch taken when they are equal
  build the same two lines: under the guard of the second branch its lines are those
  of the first, and in both the currency of each line is the currency of the transfer.
\<close>

theorem transfer_lines_branches_equal:
  "(currency_id r \<noteq> company_currency r \<longrightarrow>
      transfer_lines r jf jt acc_from acc_to = lines_transfer_currency r jf jt acc_from acc_to) \<and>
   (currency_id r = company_currency r \<longrightarrow>
      transfer_lines r jf jt acc_from acc_to = lines_company_currency r jf jt acc_from acc_to \<and>
      lines_company_currency r jf jt acc_from acc_to =
        lines_transfer_currency r jf jt acc_from acc_to) \<and>
   l_currency_id (fst (transfer_lines r jf jt acc_from acc_to)) = currency_id r \<and>
   l_currency_id (snd (transfer_lines r jf jt acc_from acc_to)) = currency_id r \<and>
   transfer_lines r jf jt acc_from acc_to = lines_transfer_currency r jf jt acc_from acc_to"
proof -
  have same: "lines_company_currency r jf jt acc_from acc_to =
      lines_transfer_currency r jf jt acc_from acc_to" if "currency_id r = company_currency r"
    using that by (simp add: lines_company_currency_def lines_transfer_currency_def)
  have br1: "transfer_lines r jf jt acc_from acc_to = lines_transfer_currency r jf jt acc_from acc_to"
    if "currency_id r \<noteq> company_currency r"
    using that by (simp add: transfer_lines_def)
  have br2: "transfer_lines r jf jt acc_from acc_to = lines_company_currency r jf jt acc_from acc_to"
    if "currency_id r = company_currency r"
    using that by (simp add: transfer_lines_def)
  have all: "transfer_lines r jf jt acc_from acc_to = lines_transfer_currency r jf jt acc_from acc_to"
    using br1 br2 same by (cases "currency_id r = company_currency r") simp_all
  have cur: "l_currency_id (fst (lines_transfer_currency r jf jt acc_from acc_to)) = currency_id r"
    "l_currency_id (snd (lines_transfer_currency r jf jt acc_from acc_to)) = currency_id r"
    by (simp_all add: lines_transfer_currency_def)
  from same br1 br2 all cur show ?thesis by simp
qed

theorem transfer_lines_branches_equal_witness:
  "currency_id ex_transfer = company_currency ex_transfer \<and>
   transfer_lines ex_transfer ex_j1 ex_j2 101 102 = lines_company_currency ex_transfer ex_j1 ex_j2 101 102 \<and>
   lines_company_currency ex_transfer ex_j1 ex_j2 101 102 =
     lines_transfer_currency ex_transfer ex_j1 ex_j2 101 102 \<and>
   currency_id (ex_transfer\<lparr>currency_id := Some 2\<rparr>) \<noteq> company_currency (ex_transfer\<lparr>currency_id := Some 2\<rparr>) \<and>
   transfer_lines (ex_transfer\<lparr>currency_id := Some 2\<rparr>) ex_j1 ex_j2 101 102 =
     lines_transfer_currency (ex_transfer\<lparr>currency_id := Some 2\<rparr>) ex_j1 ex_j2 101 102"
proof -
  let ?r = "ex_transfer\<lparr>currency_id := Some 2\<rparr>"
  have h1: "currency_id ex_transfer = company_currency ex_transfer"
    by (simp add: company_currency_def ex_defs)
  have h2: "currency_id ?r \<noteq> company_currency ?r"
    by (simp add: company_currency_def ex_defs)
  from transfer_lines_branches_equal [of ex_transfer ex_j1 ex_j2 101 102] h1
  have a: "transfer_lines ex_transfer ex_j1 ex_j2 101 102 =
      lines_company_currency ex_transfer ex_j1 ex_j2 101 102 \<and>
      lines_company_currency ex_transfer ex_j1 ex_j2 101 102 =
      lines_transfer_currency ex_transfer ex_j1 ex_j2 101 102"
    by blast
  from transfer_lines_branches_equal [of ?r ex_j1 ex_j2 101 102] h2
  have b: "transfer_lines ?r ex_j1 ex_j2 101 102 = lines_transfer_currency ?r ex_j1 ex_j2 101 102"
    by blast
  from h1 h2 a b show ?thesis by blast
qed

subsection \<open>The source journal follows the unit of the user\<close>

text \<open>
  C7. A record with a company, a user with an operating unit, and a selected source
  journal whose unit is not the unit of the user: when the company has a cash journal of
  the unit of the user, \<open>_onchange_from_enforce_ou\<close> replaces the selection with the
  journal \<open>_find_cash_journal_by_ou\<close> returns, a cash journal of that company and unit;
  when it has none, the selection stays as it is.
\<close>

theorem onchange_from_enforce_ou_forces_unit:
  assumes "company_id r = Some c"
    and "get_user_default_ou e = Some u"
    and "journal_id_from r = Some jf"
    and "j_operating_unit_id jf \<noteq> Some u"
  shows "((\<exists>j \<in> set (journals e). j_type j = ''cash'' \<and> j_company_id j = c_id c \<and>
             j_operating_unit_id j = Some u) \<longrightarrow>
          (\<exists>j. find_cash_journal_by_ou e (Some c) (Some u) = Some j \<and>
               j \<in> set (journals e) \<and> j_type j = ''cash'' \<and> j_company_id j = c_id c \<and>
               j_operating_unit_id j = Some u \<and>
               onchange_from_enforce_ou e [r] = [r\<lparr>journal_id_from := Some j\<rparr>])) \<and>
         (\<not> (\<exists>j \<in> set (journals e). j_type j = ''cash'' \<and> j_company_id j = c_id c \<and>
             j_operating_unit_id j = Some u) \<longrightarrow>
          onchange_from_enforce_ou e [r] = [r])"
proof -
  have dom: "cash_journal_domain (Some c) (Some u) j \<longleftrightarrow>
      j_type j = ''cash'' \<and> j_company_id j = c_id c \<and> j_operating_unit_id j = Some u" for j
    by (simp add: cash_journal_domain_def company_ident_def)
  have found: "onchange_from_enforce_ou e [r] = [r\<lparr>journal_id_from := Some j\<rparr>]"
    if "find_cash_journal_by_ou e (Some c) (Some u) = Some j" for j
    using assms that by (simp add: onchange_from_enforce_ou_def onchange_from_enforce_ou_rec_def)
  have absent: "onchange_from_enforce_ou e [r] = [r]"
    if "find_cash_journal_by_ou e (Some c) (Some u) = None"
    using assms that by (simp add: onchange_from_enforce_ou_def onchange_from_enforce_ou_rec_def)
  show ?thesis
  proof (cases "find_cash_journal_by_ou e (Some c) (Some u)")
    case None
    then have "\<forall>j \<in> set (journals e). \<not> cash_journal_domain (Some c) (Some u) j"
      by (simp add: find_cash_journal_by_ou_def search_limit1_id_asc_None)
    with absent [OF None] show ?thesis
      unfolding dom by blast
  next
    case (Some j)
    then have "j \<in> set (journals e) \<and> cash_journal_domain (Some c) (Some u) j"
      unfolding find_cash_journal_by_ou_def by (blast dest: search_limit1_id_asc_Some)
    with found [OF Some] Some show ?thesis
      unfolding dom by blast
  qed
qed

theorem onchange_from_enforce_ou_forces_unit_witness:
  "company_id (ex_transfer\<lparr>journal_id_from := Some ex_j3\<rparr>) = Some ex_company \<and>
   get_user_default_ou ex_env = Some 10 \<and>
   journal_id_from (ex_transfer\<lparr>journal_id_from := Some ex_j3\<rparr>) = Some ex_j3 \<and>
   j_operating_unit_id ex_j3 \<noteq> Some 10 \<and>
   (\<exists>j \<in> set (journals ex_env). j_type j = ''cash'' \<and> j_company_id j = c_id ex_company \<and>
       j_operating_unit_id j = Some 10) \<and>
   onchange_from_enforce_ou ex_env [ex_transfer\<lparr>journal_id_from := Some ex_j3\<rparr>] =
     [ex_transfer\<lparr>journal_id_from := Some ex_j1\<rparr>] \<and>
   get_user_default_ou (ex_env\<lparr>user_default_operating_unit_id := Some 12\<rparr>) = Some 12 \<and>
   j_operating_unit_id ex_j3 \<noteq> Some 12 \<and>
   \<not> (\<exists>j \<in> set (journals (ex_env\<lparr>user_default_operating_unit_id := Some 12\<rparr>)).
       j_type j = ''cash'' \<and> j_company_id j = c_id ex_company \<and> j_operating_unit_id j = Some 12) \<and>
   onchange_from_enforce_ou (ex_env\<lparr>user_default_operating_unit_id := Some 12\<rparr>)
       [ex_transfer\<lparr>journal_id_from := Some ex_j3\<rparr>] = [ex_transfer\<lparr>journal_id_from := Some ex_j3\<rparr>]"
proof -
  let ?r = "ex_transfer\<lparr>journal_id_from := Some ex_j3\<rparr>"
  let ?e = "ex_env\<lparr>user_default_operating_unit_id := Some 12\<rparr>"
  have h1: "company_id ?r = Some ex_company" by (simp add: ex_defs)
  have h2: "get_user_default_ou ex_env = Some 10" by (simp add: get_user_default_ou_def ex_defs)
  have h3: "journal_id_from ?r = Some ex_j3" by simp
  have h4: "j_operating_unit_id ex_j3 \<noteq> Some 10" by (simp add: ex_defs)
  have h5: "\<exists>j \<in> set (journals ex_env). j_type j = ''cash'' \<and> j_company_id j = c_id ex_company \<and>
       j_operating_unit_id j = Some 10"
    by (simp add: ex_defs)
  have g2: "get_user_default_ou ?e = Some 12" by (simp add: get_user_default_ou_def)
  have g4: "j_operating_unit_id ex_j3 \<noteq> Some 12" by (simp add: ex_defs)
  have g5: "\<not> (\<exists>j \<in> set (journals ?e).
       j_type j = ''cash'' \<and> j_company_id j = c_id ex_company \<and> j_operating_unit_id j = Some 12)"
    by (simp add: ex_defs)
  have k: "find_cash_journal_by_ou ex_env (Some ex_company) (Some 10) = Some ex_j1"
    by (simp add: find_cash_journal_by_ou_def search_limit1_id_asc_def cash_journal_domain_def
        company_ident_def ex_defs)
  from onchange_from_enforce_ou_forces_unit [OF h1 h2 h3 h4] h5
  have "\<exists>j. find_cash_journal_by_ou ex_env (Some ex_company) (Some 10) = Some j \<and>
        onchange_from_enforce_ou ex_env [?r] = [?r\<lparr>journal_id_from := Some j\<rparr>]"
    by blast
  with k have a: "onchange_from_enforce_ou ex_env [?r] = [ex_transfer\<lparr>journal_id_from := Some ex_j1\<rparr>]"
    by auto
  from onchange_from_enforce_ou_forces_unit [OF h1 g2 h3 g4] g5
  have b: "onchange_from_enforce_ou ?e [?r] = [?r]"
    by blast
  from h1 h2 h3 h4 h5 a g2 g4 g5 b show ?thesis by blast
qed

subsection \<open>The conversion of the parameter\<close>

lemma is_digit_not_space: "is_digit c \<Longrightarrow> \<not> is_space c"
  by (auto simp: is_digit_def is_space_def)

lemma sign_not_space: "c = CHR ''-'' \<or> c = CHR ''+'' \<Longrightarrow> \<not> is_space c"
  by (auto simp: is_space_def)

lemma sign_not_digit: "c = CHR ''-'' \<or> c = CHR ''+'' \<Longrightarrow> \<not> is_digit c"
  by (auto simp: is_digit_def)

lemma strip_id: "s \<noteq> [] \<Longrightarrow> \<not> is_space (hd s) \<Longrightarrow> \<not> is_space (last s) \<Longrightarrow> strip s = s"
proof -
  assume s: "s \<noteq> []" and h: "\<not> is_space (hd s)" and l: "\<not> is_space (last s)"
  from s h have "dropWhile is_space s = s"
    by (cases s) simp_all
  moreover from s l have "dropWhile is_space (rev s) = rev s"
    by (cases "rev s") (simp_all add: last_rev [symmetric] del: last_rev)
  ultimately show ?thesis
    by (simp add: strip_def)
qed

lemma int_digits_all: "list_all is_digit cs \<Longrightarrow> \<exists>n. int_digits acc cs = Some n"
  by (induction cs arbitrary: acc) simp_all

lemma last_digit: "cs \<noteq> [] \<Longrightarrow> list_all is_digit cs \<Longrightarrow> is_digit (last cs)"
  by (simp add: list_all_iff)

lemma filter_all_digits: "list_all is_digit cs \<Longrightarrow> filter is_digit cs = cs"
  by (simp add: list_all_iff)

text \<open>
  On a decimal integer string nothing is stripped, the digits after the sign are the
  body, and the outcome depends on the number of digits alone.
\<close>

lemma py_int_decimal_cases:
  assumes "decimal_integer_string s"
  shows "(length (filter is_digit s) \<le> 4300 \<longrightarrow> (\<exists>n. py_int s = Inr n)) \<and>
         (4300 < length (filter is_digit s) \<longrightarrow> py_int s = Inl ValueError)"
proof (cases s)
  case Nil
  with assms show ?thesis by (simp add: decimal_integer_string_def)
next
  case (Cons c cs)
  show ?thesis
  proof (cases "c = CHR ''-'' \<or> c = CHR ''+''")
    case True
    with assms Cons have cs: "cs \<noteq> []" "list_all is_digit cs"
      by (auto simp: decimal_integer_string_def)
    then obtain d ds where ds: "cs = d # ds" "is_digit d" "list_all is_digit ds"
      by (cases cs) auto
    from cs have "\<not> is_space (last s)"
      using Cons by (simp add: is_digit_not_space last_digit)
    moreover have "\<not> is_space (hd s)"
      using Cons True by (simp add: sign_not_space)
    ultimately have st: "strip s = s"
      using Cons by (intro strip_id) simp_all
    have count: "filter is_digit s = cs"
      using Cons True cs(2) by (simp add: sign_not_digit filter_all_digits)
    have body: "filter is_digit (d # ds) = cs"
      using ds cs(2) by (simp add: filter_all_digits)
    from int_digits_all [OF ds(3)] obtain n where "int_digits (digit_value d) ds = Some n"
      by blast
    with st Cons True ds body show ?thesis
      unfolding count by (auto simp: py_int_def int_max_str_digits_def)
  next
    case False
    with assms Cons have all: "list_all is_digit (c # cs)"
      by (simp add: decimal_integer_string_def)
    then have c: "is_digit c" and cs: "list_all is_digit cs"
      by simp_all
    from all have "is_digit (last (c # cs))"
      by (intro last_digit) simp_all
    then have "\<not> is_space (last s)"
      using Cons by (simp add: is_digit_not_space)
    moreover have "\<not> is_space (hd s)"
      using Cons c by (simp add: is_digit_not_space)
    ultimately have st: "strip s = s"
      using Cons by (intro strip_id) simp_all
    have count: "filter is_digit s = c # cs"
      using Cons all by (simp only: filter_all_digits)
    from int_digits_all [OF cs] obtain n where "int_digits (digit_value c) cs = Some n"
      by blast
    with st Cons False c count show ?thesis
      by (auto simp: py_int_def int_max_str_digits_def)
  qed
qed

lemma py_int_zero: "py_int ''0'' = Inr 0"
  by code_simp

lemma py_int_abc: "py_int ''abc'' = Inl ValueError"
  by code_simp

lemma central_id_cases:
  "central_id e =
     (case config_parameter e ''cash_transfer.central_journal_id'' of
        None \<Rightarrow> Inr 0
      | Some v \<Rightarrow> if v = [] then Inr 0 else py_int v)"
  by (simp add: central_id_def get_param_def py_int_zero split: option.splits)

lemma get_central_returns_iff:
  "(\<exists>j. get_central_cash_journal e c = Inr j) \<longleftrightarrow> (\<exists>i. central_id e = Inr i)"
  by (auto simp: get_central_cash_journal_def split: sum.splits option.splits)

lemma get_central_raises_iff:
  "get_central_cash_journal e c = Inl err \<longleftrightarrow> central_id e = Inl err"
  by (auto simp: get_central_cash_journal_def split: sum.splits option.splits)

lemma py_int_error: "py_int s = Inl err \<Longrightarrow> err = ValueError"
  by (auto simp: py_int_def Let_def split: list.splits if_splits option.splits)

lemma get_central_error:
  "get_central_cash_journal e c = Inl err \<Longrightarrow> err = ValueError \<and> central_id e = Inl ValueError"
proof -
  assume a: "get_central_cash_journal e c = Inl err"
  then have c: "central_id e = Inl err"
    by (simp add: get_central_raises_iff)
  then have "err = ValueError"
    by (auto simp: central_id_cases split: option.splits if_splits dest: py_int_error)
  with c show ?thesis by simp
qed

lemma zeros_decimal: "0 < n \<Longrightarrow> decimal_integer_string (replicate n (CHR ''0''))"
  by (cases n) (simp_all add: decimal_integer_string_def list_all_iff is_digit_def)

lemma zeros_digits: "length (filter is_digit (replicate n (CHR ''0''))) = n"
  by (simp add: is_digit_def)

lemma ex_env_param_lookup:
  "config_parameter (ex_env_param v) ''cash_transfer.central_journal_id'' = Some v"
  by (simp add: ex_env_param_def)

text \<open>
  C9, with the bound the conversion needs. \<open>_get_central_cash_journal\<close> returns (a
  journal or nothing) for every value of the parameter
  \<open>cash_transfer.central_journal_id\<close> that is absent, empty or a decimal integer string
  of at most 4300 digits. A decimal integer string of more digits makes it raise
  \<open>ValueError\<close>, the error of the conversion, which is the only error it can raise, and
  which is also raised when the parameter holds \<open>abc\<close>.
\<close>

theorem get_central_cash_journal_returns:
  "(config_parameter e ''cash_transfer.central_journal_id'' = None \<or>
    config_parameter e ''cash_transfer.central_journal_id'' = Some [] \<or>
    (\<exists>s. config_parameter e ''cash_transfer.central_journal_id'' = Some s \<and>
         decimal_integer_string s \<and> length (filter is_digit s) \<le> 4300) \<longrightarrow>
    (\<exists>j. get_central_cash_journal e c = Inr j)) \<and>
   (\<forall>s. config_parameter e ''cash_transfer.central_journal_id'' = Some s \<and>
        decimal_integer_string s \<and> 4300 < length (filter is_digit s) \<longrightarrow>
        get_central_cash_journal e c = Inl ValueError) \<and>
   (\<forall>err. get_central_cash_journal e c = Inl err \<longrightarrow>
      err = ValueError \<and> central_id e = Inl ValueError) \<and>
   get_central_cash_journal
     (e\<lparr>config_parameter := (config_parameter e)(''cash_transfer.central_journal_id'' \<mapsto> ''abc'')\<rparr>) c
     = Inl ValueError"
proof (intro conjI impI allI)
  assume pre: "config_parameter e ''cash_transfer.central_journal_id'' = None \<or>
    config_parameter e ''cash_transfer.central_journal_id'' = Some [] \<or>
    (\<exists>s. config_parameter e ''cash_transfer.central_journal_id'' = Some s \<and>
         decimal_integer_string s \<and> length (filter is_digit s) \<le> 4300)"
  have "\<exists>i. central_id e = Inr i"
    using pre
  proof (elim disjE exE conjE)
    assume "config_parameter e ''cash_transfer.central_journal_id'' = None"
    then show ?thesis by (simp add: central_id_cases)
  next
    assume "config_parameter e ''cash_transfer.central_journal_id'' = Some []"
    then show ?thesis by (simp add: central_id_cases)
  next
    fix s
    assume s: "config_parameter e ''cash_transfer.central_journal_id'' = Some s"
      and d: "decimal_integer_string s" and l: "length (filter is_digit s) \<le> 4300"
    from py_int_decimal_cases [OF d] l obtain n where "py_int s = Inr n" by blast
    with s show ?thesis by (simp add: central_id_cases)
  qed
  then show "\<exists>j. get_central_cash_journal e c = Inr j"
    by (simp add: get_central_returns_iff)
next
  fix s
  assume a: "config_parameter e ''cash_transfer.central_journal_id'' = Some s \<and>
        decimal_integer_string s \<and> 4300 < length (filter is_digit s)"
  then have d: "decimal_integer_string s" and l: "4300 < length (filter is_digit s)"
    by simp_all
  from d have "s \<noteq> []"
    by (auto simp: decimal_integer_string_def)
  moreover from py_int_decimal_cases [OF d] l have "py_int s = Inl ValueError"
    by blast
  ultimately have "central_id e = Inl ValueError"
    using a by (simp add: central_id_cases)
  then show "get_central_cash_journal e c = Inl ValueError"
    by (simp add: get_central_raises_iff)
next
  fix err
  assume "get_central_cash_journal e c = Inl err"
  then show "err = ValueError" by (simp add: get_central_error)
next
  fix err
  assume "get_central_cash_journal e c = Inl err"
  then show "central_id e = Inl ValueError" by (simp add: get_central_error)
next
  show "get_central_cash_journal
     (e\<lparr>config_parameter := (config_parameter e)(''cash_transfer.central_journal_id'' \<mapsto> ''abc'')\<rparr>) c
     = Inl ValueError"
    by (simp add: get_central_cash_journal_def central_id_cases py_int_abc)
qed

theorem get_central_cash_journal_returns_witness:
  "config_parameter (ex_env_param ''-42'') ''cash_transfer.central_journal_id'' = Some ''-42'' \<and>
   decimal_integer_string ''-42'' \<and> length (filter is_digit ''-42'') \<le> 4300 \<and>
   (\<exists>j. get_central_cash_journal (ex_env_param ''-42'') (Some ex_company) = Inr j) \<and>
   config_parameter ex_env ''cash_transfer.central_journal_id'' = None \<and>
   (\<exists>j. get_central_cash_journal ex_env (Some ex_company) = Inr j) \<and>
   decimal_integer_string (replicate 4301 (CHR ''0'')) \<and>
   4300 < length (filter is_digit (replicate 4301 (CHR ''0''))) \<and>
   get_central_cash_journal (ex_env_param (replicate 4301 (CHR ''0''))) (Some ex_company) =
     Inl ValueError \<and>
   get_central_cash_journal (ex_env_param ''x1'') (Some ex_company) = Inl ValueError \<and>
   central_id (ex_env_param ''x1'') = Inl ValueError"
proof -
  let ?z = "replicate 4301 (CHR ''0'')"
  have p: "config_parameter (ex_env_param ''-42'') ''cash_transfer.central_journal_id'' = Some ''-42''"
    by (rule ex_env_param_lookup)
  have d: "decimal_integer_string ''-42''"
    by (simp add: decimal_integer_string_def is_digit_def)
  have l: "length (filter is_digit ''-42'') \<le> 4300"
    by (simp add: is_digit_def)
  have n: "config_parameter ex_env ''cash_transfer.central_journal_id'' = None"
    by (simp add: ex_env_def)
  have zp: "config_parameter (ex_env_param ?z) ''cash_transfer.central_journal_id'' = Some ?z"
    by (rule ex_env_param_lookup)
  have zd: "decimal_integer_string ?z"
    by (rule zeros_decimal) simp
  have zl: "4300 < length (filter is_digit ?z)"
    unfolding zeros_digits by simp
  have x: "get_central_cash_journal (ex_env_param ''x1'') (Some ex_company) = Inl ValueError"
    by code_simp
  from get_central_cash_journal_returns [of "ex_env_param ''-42''" "Some ex_company"] p d l
  have a: "\<exists>j. get_central_cash_journal (ex_env_param ''-42'') (Some ex_company) = Inr j"
    by blast
  from get_central_cash_journal_returns [of ex_env "Some ex_company"] n
  have b: "\<exists>j. get_central_cash_journal ex_env (Some ex_company) = Inr j"
    by blast
  from get_central_cash_journal_returns [of "ex_env_param ?z" "Some ex_company"] zp zd zl
  have z: "get_central_cash_journal (ex_env_param ?z) (Some ex_company) = Inl ValueError"
    by blast
  from get_central_cash_journal_returns [of "ex_env_param ''x1''" "Some ex_company"] x
  have c: "central_id (ex_env_param ''x1'') = Inl ValueError"
    by blast
  from p d l a n b zd zl z x c show ?thesis by blast
qed

text \<open>
  Without the bound the statement of C9 fails: a parameter of 4301 zeros is a decimal
  integer string, and the call raises.
\<close>

theorem get_central_cash_journal_returns_counterexample:
  "config_parameter (ex_env_param (replicate 4301 (CHR ''0''))) ''cash_transfer.central_journal_id'' =
     Some (replicate 4301 (CHR ''0'')) \<and>
   decimal_integer_string (replicate 4301 (CHR ''0'')) \<and>
   get_central_cash_journal (ex_env_param (replicate 4301 (CHR ''0''))) (Some ex_company) =
     Inl ValueError"
proof -
  let ?p = "replicate 4301 (CHR ''0'')"
  have d: "decimal_integer_string ?p"
    by (rule zeros_decimal) simp
  have "4300 < length (filter is_digit ?p)"
    unfolding zeros_digits by simp
  with py_int_decimal_cases [OF d] have "py_int ?p = Inl ValueError"
    by (rule conjunct2 [THEN mp])
  moreover have "?p \<noteq> []"
    by simp
  ultimately have "central_id (ex_env_param ?p) = Inl ValueError"
    by (simp add: central_id_cases ex_env_param_lookup)
  then have "get_central_cash_journal (ex_env_param ?p) (Some ex_company) = Inl ValueError"
    by (simp add: get_central_raises_iff)
  with d ex_env_param_lookup [of ?p] show ?thesis
    by (intro conjI)
qed

subsection \<open>Repeated validation and recordsets\<close>

lemma central_id_moves: "central_id (e\<lparr>account_moves := ms\<rparr>) = central_id e"
  by (simp add: central_id_def)

lemma configured_central_moves:
  "configured_central (e\<lparr>account_moves := ms\<rparr>) c i = configured_central e c i"
  by (simp add: configured_central_def)

lemma fallback_central_moves:
  "fallback_central (e\<lparr>account_moves := ms\<rparr>) c = fallback_central e c"
  by (simp add: fallback_central_def split: option.splits)

lemma get_central_moves [simp]:
  "get_central_cash_journal (e\<lparr>account_moves := ms\<rparr>) c = get_central_cash_journal e c"
  by (simp add: get_central_cash_journal_def central_id_moves configured_central_moves
      fallback_central_moves split: sum.splits option.splits)

lemma transfer_lines_state [simp]:
  "transfer_lines (r\<lparr>state := s\<rparr>) jf jt acc_from acc_to = transfer_lines r jf jt acc_from acc_to"
  by (simp add: transfer_lines_def lines_transfer_currency_def lines_company_currency_def
      company_currency_def)

lemma posted_move_state [simp]:
  "posted_move (r\<lparr>state := s\<rparr>) jf jt acc_from acc_to = posted_move r jf jt acc_from acc_to"
  by (simp add: posted_move_def)

lemma posted_move_posted [simp]: "m_state (posted_move r jf jt acc_from acc_to) = ''posted''"
  by (simp add: posted_move_def action_post_def)

lemma validate_rec_Inr:
  assumes "action_validate_rec e r = Inr x"
  obtains jf jt central acc_from acc_to where
    "0 < amount r" "journal_id_from r = Some jf" "journal_id_to r = Some jt"
    "j_id jf \<noteq> j_id jt" "get_central_cash_journal e (company_id r) = Inr central"
    "\<forall>cj. central = Some cj \<longrightarrow> j_id jt = j_id cj"
    "main_account (Some jf) = Some acc_from" "main_account (Some jt) = Some acc_to"
  using assms
  by (auto simp: action_validate_rec_def split: if_splits option.splits sum.splits)

lemma validate_rec_Inr_moves:
  assumes "action_validate_rec e r = Inr x"
  shows "\<exists>m. m_state m = ''posted'' \<and>
    (\<forall>ms s. action_validate_rec (e\<lparr>account_moves := ms\<rparr>) (r\<lparr>state := s\<rparr>) =
       Inr (e\<lparr>account_moves := ms @ [m]\<rparr>, r\<lparr>state := ''validated''\<rparr>))"
proof -
  from assms obtain jf jt central acc_from acc_to where h:
    "0 < amount r" "journal_id_from r = Some jf" "journal_id_to r = Some jt"
    "j_id jf \<noteq> j_id jt" "get_central_cash_journal e (company_id r) = Inr central"
    "\<forall>cj. central = Some cj \<longrightarrow> j_id jt = j_id cj"
    "main_account (Some jf) = Some acc_from" "main_account (Some jt) = Some acc_to"
    by (rule validate_rec_Inr)
  have "action_validate_rec (e\<lparr>account_moves := ms\<rparr>) (r\<lparr>state := s\<rparr>) =
       Inr (e\<lparr>account_moves := ms @ [posted_move r jf jt acc_from acc_to]\<rparr>,
            r\<lparr>state := ''validated''\<rparr>)" for ms s
    using validate_rec_success [of "r\<lparr>state := s\<rparr>" jf jt "e\<lparr>account_moves := ms\<rparr>" central
        acc_from acc_to] h
    by simp
  then show ?thesis
    using posted_move_posted by blast
qed

lemma validate_rec_Inl_moves:
  "action_validate_rec e r = Inl err \<Longrightarrow> action_validate_rec (e\<lparr>account_moves := ms\<rparr>) r = Inl err"
  by (auto simp: action_validate_rec_def Let_def split: if_splits option.splits sum.splits prod.splits)

lemma env_moves_id: "e\<lparr>account_moves := account_moves e\<rparr> = e"
  by simp

text \<open>
  C8. \<open>action_validate\<close> never reads the field \<open>state\<close>: when the checks of a record
  pass, they pass whatever its state, also when it is already validated; each call
  appends one more posted move to the ledger and sets the state to validated, so that a
  second call on the validated record leaves two moves where the first left one.
\<close>

theorem action_validate_ignores_state:
  assumes "action_validate e [r] = (e1, rs1, Inr True)"
  shows "\<exists>move. m_state move = ''posted'' \<and>
      e1 = e\<lparr>account_moves := account_moves e @ [move]\<rparr> \<and>
      rs1 = [r\<lparr>state := ''validated''\<rparr>] \<and>
      (\<forall>s. action_validate e [r\<lparr>state := s\<rparr>] = (e1, rs1, Inr True)) \<and>
      action_validate e1 rs1 =
        (e\<lparr>account_moves := account_moves e @ [move, move]\<rparr>, rs1, Inr True)"
proof -
  from assms obtain x where ok: "action_validate_rec e r = Inr x"
    by (cases "action_validate_rec e r") auto
  from validate_rec_Inr_moves [OF ok] obtain m where posted: "m_state m = ''posted''"
    and run: "\<And>ms s. action_validate_rec (e\<lparr>account_moves := ms\<rparr>) (r\<lparr>state := s\<rparr>) =
       Inr (e\<lparr>account_moves := ms @ [m]\<rparr>, r\<lparr>state := ''validated''\<rparr>)"
    by blast
  have first: "action_validate_rec e (r\<lparr>state := s\<rparr>) =
      Inr (e\<lparr>account_moves := account_moves e @ [m]\<rparr>, r\<lparr>state := ''validated''\<rparr>)" for s
    using run [of "account_moves e" s] by simp
  from first [of "state r"] have plain: "action_validate_rec e r =
      Inr (e\<lparr>account_moves := account_moves e @ [m]\<rparr>, r\<lparr>state := ''validated''\<rparr>)"
    by simp
  with assms have e1: "e1 = e\<lparr>account_moves := account_moves e @ [m]\<rparr>"
    and rs1: "rs1 = [r\<lparr>state := ''validated''\<rparr>]"
    by simp_all
  have any: "action_validate e [r\<lparr>state := s\<rparr>] = (e1, rs1, Inr True)" for s
    using first [of s] by (simp add: e1 rs1)
  have "action_validate_rec (e\<lparr>account_moves := account_moves e @ [m]\<rparr>) (r\<lparr>state := ''validated''\<rparr>) =
      Inr (e\<lparr>account_moves := (account_moves e @ [m]) @ [m]\<rparr>, r\<lparr>state := ''validated''\<rparr>)"
    by (rule run)
  then have again: "action_validate e1 rs1 =
      (e\<lparr>account_moves := account_moves e @ [m, m]\<rparr>, rs1, Inr True)"
    by (simp add: e1 rs1)
  from posted e1 rs1 any again show ?thesis by blast
qed

lemma action_validate_prefix:
  assumes "\<forall>r \<in> set pre. \<exists>x. action_validate_rec e r = Inr x"
    and "action_validate_rec e bad = Inl err"
  shows "\<exists>moves. length moves = length pre \<and> (\<forall>m \<in> set moves. m_state m = ''posted'') \<and>
      action_validate (e\<lparr>account_moves := ms\<rparr>) (pre @ bad # post) =
        (e\<lparr>account_moves := ms @ moves\<rparr>,
         map (\<lambda>r. r\<lparr>state := ''validated''\<rparr>) pre @ bad # post, Inl err)"
  using assms(1)
proof (induction pre arbitrary: ms)
  case Nil
  have "action_validate_rec (e\<lparr>account_moves := ms\<rparr>) bad = Inl err"
    using assms(2) by (rule validate_rec_Inl_moves)
  then show ?case by simp
next
  case (Cons r pre)
  from Cons.prems obtain x where "action_validate_rec e r = Inr x"
    by auto
  from validate_rec_Inr_moves [OF this] obtain m where posted: "m_state m = ''posted''"
    and run: "\<And>ms s. action_validate_rec (e\<lparr>account_moves := ms\<rparr>) (r\<lparr>state := s\<rparr>) =
       Inr (e\<lparr>account_moves := ms @ [m]\<rparr>, r\<lparr>state := ''validated''\<rparr>)"
    by blast
  from run [of ms "state r"] have step: "action_validate_rec (e\<lparr>account_moves := ms\<rparr>) r =
       Inr (e\<lparr>account_moves := ms @ [m]\<rparr>, r\<lparr>state := ''validated''\<rparr>)"
    by simp
  from Cons.prems have "\<forall>r \<in> set pre. \<exists>x. action_validate_rec e r = Inr x"
    by simp
  from Cons.IH [OF this, of "ms @ [m]"] obtain moves where
    len: "length moves = length pre" and all: "\<forall>m \<in> set moves. m_state m = ''posted''" and
    rest: "action_validate (e\<lparr>account_moves := ms @ [m]\<rparr>) (pre @ bad # post) =
        (e\<lparr>account_moves := (ms @ [m]) @ moves\<rparr>,
         map (\<lambda>r. r\<lparr>state := ''validated''\<rparr>) pre @ bad # post, Inl err)"
    by blast
  have "action_validate (e\<lparr>account_moves := ms\<rparr>) ((r # pre) @ bad # post) =
        (e\<lparr>account_moves := ms @ (m # moves)\<rparr>,
         map (\<lambda>r. r\<lparr>state := ''validated''\<rparr>) (r # pre) @ bad # post, Inl err)"
    using step rest by simp
  moreover have "length (m # moves) = length (r # pre)"
    using len by simp
  moreover have "\<forall>x \<in> set (m # moves). m_state x = ''posted''"
    using posted all by simp
  ultimately show ?case by blast
qed

text \<open>
  C10. On a recordset in which a record fails a check after records that pass theirs,
  \<open>action_validate\<close> raises the error of that record with, at that moment, one posted
  move in the ledger for each of the earlier records and each of them in state
  validated: the method undoes nothing. The failing record and the ones after it are
  untouched.
\<close>

theorem action_validate_batch_no_rollback:
  assumes "\<forall>r \<in> set pre. \<exists>x. action_validate_rec e r = Inr x"
    and "action_validate_rec e bad = Inl err"
  shows "\<exists>moves. length moves = length pre \<and> (\<forall>m \<in> set moves. m_state m = ''posted'') \<and>
      action_validate e (pre @ bad # post) =
        (e\<lparr>account_moves := account_moves e @ moves\<rparr>,
         map (\<lambda>r. r\<lparr>state := ''validated''\<rparr>) pre @ bad # post, Inl err)"
  using action_validate_prefix [OF assms, of "account_moves e" post] by simp


lemma ex_validate_rec:
  "action_validate_rec ex_env (ex_transfer\<lparr>state := s\<rparr>) =
     Inr (ex_env\<lparr>account_moves := account_moves ex_env @ [posted_move ex_transfer ex_j1 ex_j2 101 102]\<rparr>,
          ex_transfer\<lparr>state := ''validated''\<rparr>)"
proof -
  let ?r = "ex_transfer\<lparr>state := s\<rparr>"
  have h1: "0 < amount ?r" by (simp add: ex_defs)
  have h2: "journal_id_from ?r = Some ex_j1" by (simp add: ex_defs)
  have h3: "journal_id_to ?r = Some ex_j2" by (simp add: ex_defs)
  have h4: "j_id ex_j1 \<noteq> j_id ex_j2" by (simp add: ex_defs)
  have h5: "get_central_cash_journal ex_env (company_id ?r) = Inr (Some ex_j2)"
    using ex_central by (simp add: ex_transfer_def)
  have h6: "\<forall>cj. Some ex_j2 = Some cj \<longrightarrow> j_id ex_j2 = j_id cj" by simp
  have h7: "main_account (Some ex_j1) = Some 101" by (simp add: main_account_def ex_defs)
  have h8: "main_account (Some ex_j2) = Some 102" by (simp add: main_account_def ex_defs)
  from validate_rec_success [OF h1 h2 h3 h4 h5 h6 h7 h8] show ?thesis by simp
qed

theorem action_validate_ignores_state_witness:
  "action_validate ex_env [ex_transfer\<lparr>state := ''validated''\<rparr>] =
     (ex_env\<lparr>account_moves := account_moves ex_env @ [posted_move ex_transfer ex_j1 ex_j2 101 102]\<rparr>,
      [ex_transfer\<lparr>state := ''validated''\<rparr>], Inr True) \<and>
   (\<exists>move. m_state move = ''posted'' \<and>
      action_validate
        (ex_env\<lparr>account_moves := account_moves ex_env @ [posted_move ex_transfer ex_j1 ex_j2 101 102]\<rparr>)
        [ex_transfer\<lparr>state := ''validated''\<rparr>] =
        (ex_env\<lparr>account_moves := account_moves ex_env @ [move, move]\<rparr>,
         [ex_transfer\<lparr>state := ''validated''\<rparr>], Inr True))"
proof -
  let ?r = "ex_transfer\<lparr>state := ''validated''\<rparr>"
  let ?e1 = "ex_env\<lparr>account_moves := account_moves ex_env @ [posted_move ex_transfer ex_j1 ex_j2 101 102]\<rparr>"
  have h: "action_validate ex_env [?r] = (?e1, [?r], Inr True)"
    using ex_validate_rec [of "''validated''"] by simp
  from action_validate_ignores_state [OF h] obtain move where
    "m_state move = ''posted''"
    "action_validate ?e1 [?r] =
       (ex_env\<lparr>account_moves := account_moves ex_env @ [move, move]\<rparr>, [?r], Inr True)"
    by blast
  with h show ?thesis by blast
qed

theorem action_validate_batch_no_rollback_witness:
  "(\<exists>x. action_validate_rec ex_env ex_transfer = Inr x) \<and>
   action_validate_rec ex_env (ex_transfer\<lparr>amount := 0\<rparr>) = Inl InvalidAmount \<and>
   (\<exists>moves. length moves = length [ex_transfer] \<and> (\<forall>m \<in> set moves. m_state m = ''posted'') \<and>
      action_validate ex_env ([ex_transfer] @ ex_transfer\<lparr>amount := 0\<rparr> # [ex_transfer]) =
        (ex_env\<lparr>account_moves := account_moves ex_env @ moves\<rparr>,
         map (\<lambda>r. r\<lparr>state := ''validated''\<rparr>) [ex_transfer] @
           ex_transfer\<lparr>amount := 0\<rparr> # [ex_transfer], Inl InvalidAmount))"
proof -
  have h0: "\<exists>x. action_validate_rec ex_env ex_transfer = Inr x"
    using ex_validate_rec [of "state ex_transfer"] by simp
  then have h1: "\<forall>r \<in> set [ex_transfer]. \<exists>x. action_validate_rec ex_env r = Inr x"
    by simp
  have h2: "action_validate_rec ex_env (ex_transfer\<lparr>amount := 0\<rparr>) = Inl InvalidAmount"
    by (rule validate_rec_amount) simp
  from action_validate_batch_no_rollback [OF h1 h2, of "[ex_transfer]"] h0 h2
  show ?thesis by blast
qed

end
